theory Spec2Isabelle
  imports Complex_Main "HOL-Library.Log_Nat"
begin

section \<open>Python values\<close>

text \<open>
  The dashboard handles whatever \<^verbatim>\<open>response.json()\<close> hands back, so the model works on
  Python values as the JSON decoder builds them. A dict is an association list in
  insertion order. A float is a finite binary64 number, represented by its exact value as
  a rational (the sign of a zero is not kept). \<^verbatim>\<open>None\<close> is both JSON's null and the
  "absent" result of \<^verbatim>\<open>fetch_data\<close>.
\<close>

datatype pyval =
    PNone
  | PBool bool
  | PInt int
  | PFloat rat
  | PStr string
  | PList "pyval list"
  | PDict "(string \<times> pyval) list"

text \<open>
  Exceptions that the modelled code can raise. \<open>NotModelled\<close> marks the few library
  behaviours (the \<^verbatim>\<open>repr\<close> of a float, pandas on payloads that are not lists of records)
  that the model does not compute; no theorem below says anything about those runs.
  \<open>ConnectionError\<close>, \<open>ConnectTimeout\<close> and \<open>ReadTimeout\<close> are the classes of
  \<^verbatim>\<open>requests.exceptions\<close>; \<open>OtherException\<close> is any further subclass of
  \<^verbatim>\<open>Exception\<close>.
\<close>

datatype py_error =
    TypeError
  | AttributeError
  | KeyError
  | ValueError
  | OverflowError
  | JSONDecodeError
  | ConnectionError
  | ConnectTimeout
  | ReadTimeout
  | OtherException
  | NotModelled

fun py_truthy :: "pyval \<Rightarrow> bool" where
  "py_truthy PNone = False"
| "py_truthy (PBool b) = b"
| "py_truthy (PInt n) = (n \<noteq> 0)"
| "py_truthy (PFloat x) = (x \<noteq> 0)"
| "py_truthy (PStr s) = (s \<noteq> [])"
| "py_truthy (PList xs) = (xs \<noteq> [])"
| "py_truthy (PDict kvs) = (kvs \<noteq> [])"

fun type_name :: "pyval \<Rightarrow> string" where
  "type_name PNone = ''NoneType''"
| "type_name (PBool b) = ''bool''"
| "type_name (PInt n) = ''int''"
| "type_name (PFloat x) = ''float''"
| "type_name (PStr s) = ''str''"
| "type_name (PList xs) = ''list''"
| "type_name (PDict kvs) = ''dict''"

text \<open>\<^verbatim>\<open>d.get(key, default)\<close> on a dict; on any other value the attribute is missing.\<close>

fun py_get :: "pyval \<Rightarrow> string \<Rightarrow> pyval \<Rightarrow> py_error + pyval" where
  "py_get (PDict kvs) k d = Inr (case map_of kvs k of None \<Rightarrow> d | Some v \<Rightarrow> v)"
| "py_get v k d = Inl AttributeError"

section \<open>Numbers and their text\<close>

fun nat_digits :: "nat \<Rightarrow> string" where
  "nat_digits n =
     (if n < 10 then [char_of (48 + n)]
      else nat_digits (n div 10) @ [char_of (48 + n mod 10)])"

declare nat_digits.simps [simp del]

definition int_str :: "int \<Rightarrow> string" where
  "int_str n = (if n < 0 then ''-'' @ nat_digits (nat (- n)) else nat_digits (nat n))"

definition round_half_even :: "rat \<Rightarrow> int" where
  "round_half_even r =
     (let q = \<lfloor>r\<rfloor>; f = r - of_int q
      in if f < 1 / 2 then q else if 1 / 2 < f then q + 1 else if even q then q else q + 1)"

text \<open>
  \<open>binade a\<close> is the exponent \<open>e\<close> with \<open>2^e \<le> a < 2^(e+1)\<close> for positive \<open>a\<close>;
  \<open>round_double\<close> rounds a rational to the nearest binary64 number, ties to even, with
  the subnormal range included and \<open>None\<close> for a result beyond the largest finite float.
\<close>

definition binade :: "rat \<Rightarrow> int" where
  "binade a = (let (p, q) = quotient_of a; e0 = bitlen p - bitlen q
               in if (2::rat) powi e0 \<le> a then e0 else e0 - 1)"

definition round_double :: "rat \<Rightarrow> rat option" where
  "round_double r =
     (if r = 0 then Some 0
      else let a = \<bar>r\<bar>;
               e = max (binade a) (- 1022);
               quantum = (2::rat) powi (e - 52);
               m = round_half_even (a / quantum)
           in if 1023 < e \<or> (e = 1023 \<and> 2 ^ 53 \<le> m) then None
              else Some ((if r < 0 then - 1 else 1) * of_int m * quantum))"

text \<open>
  The format specification \<^verbatim>\<open>.1f\<close> applied to a float: the shortest way to say
  "correctly rounded to one decimal, ties to even, on the exact binary value".
\<close>

definition fmt_1f :: "rat \<Rightarrow> string" where
  "fmt_1f x =
     (let t = round_half_even (\<bar>x\<bar> * 10)
      in (if x < 0 then ''-'' else '''') @ nat_digits (nat (t div 10)) @ ''.'' @
         nat_digits (nat (t mod 10)))"

text \<open>\<^verbatim>\<open>num >= k\<close> for an integer literal \<open>k\<close>. Python compares int and float exactly.\<close>

fun py_ge :: "pyval \<Rightarrow> int \<Rightarrow> py_error + bool" where
  "py_ge (PInt n) k = Inr (k \<le> n)"
| "py_ge (PFloat x) k = Inr (of_int k \<le> x)"
| "py_ge (PBool b) k = Inr (k \<le> (if b then 1 else 0))"
| "py_ge v k = Inl TypeError"

text \<open>
  \<^verbatim>\<open>num / k\<close> for a positive integer literal \<open>k\<close> that a float holds exactly: true
  division, correctly rounded to a float; an int too large for a float overflows.
\<close>

definition div_float :: "rat \<Rightarrow> int \<Rightarrow> py_error + rat" where
  "div_float x k = (case round_double (x / of_int k) of
                      None \<Rightarrow> Inl OverflowError | Some d \<Rightarrow> Inr d)"

fun py_truediv :: "pyval \<Rightarrow> int \<Rightarrow> py_error + rat" where
  "py_truediv (PInt n) k = div_float (of_int n) k"
| "py_truediv (PFloat x) k = div_float x k"
| "py_truediv (PBool b) k = div_float (if b then 1 else 0) k"
| "py_truediv v k = Inl TypeError"

text \<open>\<^verbatim>\<open>str(num)\<close> on the values that reach it.\<close>

fun py_str :: "pyval \<Rightarrow> py_error + string" where
  "py_str (PInt n) = Inr (int_str n)"
| "py_str (PBool b) = Inr (if b then ''True'' else ''False'')"
| "py_str (PStr s) = Inr s"
| "py_str PNone = Inr ''None''"
| "py_str v = Inl NotModelled"

text \<open>\<^verbatim>\<open>f"{v:.1f}"\<close>: an int is converted to a float first.\<close>

fun py_fmt_1f :: "pyval \<Rightarrow> py_error + string" where
  "py_fmt_1f (PFloat x) = Inr (fmt_1f x)"
| "py_fmt_1f (PInt n) = (case round_double (of_int n) of
                           None \<Rightarrow> Inl OverflowError | Some d \<Rightarrow> Inr (fmt_1f d))"
| "py_fmt_1f (PBool b) = Inr (fmt_1f (if b then 1 else 0))"
| "py_fmt_1f (PStr s) = Inl ValueError"
| "py_fmt_1f v = Inl TypeError"

section \<open>The two formatting helpers\<close>

definition format_number :: "pyval \<Rightarrow> py_error + string" where
  "format_number num =
     (case py_ge num 1000000 of
        Inl e \<Rightarrow> Inl e
      | Inr True \<Rightarrow>
          (case py_truediv num 1000000 of Inl e \<Rightarrow> Inl e | Inr d \<Rightarrow> Inr (fmt_1f d @ ''M''))
      | Inr False \<Rightarrow>
          (case py_ge num 1000 of
             Inl e \<Rightarrow> Inl e
           | Inr True \<Rightarrow>
               (case py_truediv num 1000 of Inl e \<Rightarrow> Inl e | Inr d \<Rightarrow> Inr (fmt_1f d @ ''K''))
           | Inr False \<Rightarrow> py_str num))"

definition get_success_rate_color :: "pyval \<Rightarrow> py_error + string" where
  "get_success_rate_color rate =
     (case py_ge rate 95 of
        Inl e \<Rightarrow> Inl e
      | Inr True \<Rightarrow> Inr ''success-rate-high''
      | Inr False \<Rightarrow>
          (case py_ge rate 80 of
             Inl e \<Rightarrow> Inl e
           | Inr True \<Rightarrow> Inr ''success-rate-medium''
           | Inr False \<Rightarrow> Inr ''success-rate-low''))"

section \<open>The world outside: configuration, widgets, HTTP\<close>

text \<open>
  \<open>BACKEND_URL\<close> and \<open>REFRESH_INTERVAL\<close> are read once when the module is loaded. The
  widget state is what the operator has set in the browser: \<open>None\<close> for a widget that
  was never touched, so that it shows its default.
\<close>

record config =
  BACKEND_URL :: string
  REFRESH_INTERVAL :: int

datatype http_body = Malformed string | Json pyval

text \<open>
  What \<^verbatim>\<open>requests.get(url, timeout=t)\<close> does: it returns a response with a status code
  and a body, or raises an exception with a message. \<^verbatim>\<open>response.json()\<close> raises on a
  \<open>Malformed\<close> body (with the decoder's message).
\<close>

datatype http_outcome = Response int http_body | Failed py_error string

record world =
  http :: "string \<Rightarrow> nat \<Rightarrow> http_outcome"
  auto_refresh_box :: "bool option"
  slider_pos :: "int option"
  refresh_now :: bool

section \<open>What a run does: the page and the control outcome\<close>

type_synonym row = "(string \<times> pyval) list"

datatype frame = Frame "row list" | Sorted string frame

datatype series = Column string frame

datatype gtrace = Scatter string series series | Bar string series series

datatype figure = PxBar frame string string string | GoFigure "gtrace list"

text \<open>
  One constructor for each call that reaches the page, the network or the clock, in the
  order the calls are made. Layout containers (\<^verbatim>\<open>st.columns\<close>, \<^verbatim>\<open>with\<close> blocks) and
  \<^verbatim>\<open>update_layout\<close> are not recorded; pictographs and markup are left out of the
  labels, and the footer keeps the backend address but not the time of day.
\<close>

datatype ui_event =
    Markdown string
  | Image string
  | Checkbox string bool
  | Slider string int int int
  | Button string
  | Get string nat
  | StError string
  | StWarning string
  | StInfo string
  | StSuccess string
  | Metric string string
  | PlotlyChart figure
  | StDataframe frame
  | Sleep int
  | Footer string

datatype outcome = Returned | Rerun | Raised py_error

text \<open>
  A command emits events and then either goes on with a value (\<open>Inr\<close>) or leaves
  \<^verbatim>\<open>main\<close> (\<open>Inl\<close>): by \<^verbatim>\<open>return\<close>, by \<^verbatim>\<open>st.rerun()\<close>, or by an exception nobody
  catches.
\<close>

type_synonym 'a io = "ui_event list \<times> (outcome + 'a)"

definition emit :: "ui_event list \<Rightarrow> unit io" where
  "emit evs = (evs, Inr ())"

definition leave :: "outcome \<Rightarrow> 'a io" where
  "leave out = ([], Inl out)"

fun lift :: "py_error + 'a \<Rightarrow> 'a io" where
  "lift (Inl e) = ([], Inl (Raised e))"
| "lift (Inr a) = ([], Inr a)"

fun bind :: "'a io \<Rightarrow> ('a \<Rightarrow> 'b io) \<Rightarrow> 'b io" where
  "bind (evs, Inl out) f = (evs, Inl out)"
| "bind (evs, Inr a) f = (case f a of (evs', r) \<Rightarrow> (evs @ evs', r))"

fun seq_io :: "unit io list \<Rightarrow> unit io" where
  "seq_io [] = emit []"
| "seq_io (c # cs) = bind c (\<lambda>_. seq_io cs)"

section \<open>The fetcher\<close>

text \<open>
  The body of the \<^verbatim>\<open>try\<close> block: the events it emits and either the value it returns
  or the exception it raises, with the exception's message.
\<close>

definition fetch_try :: "config \<Rightarrow> world \<Rightarrow> string \<Rightarrow> ui_event list \<times> ((py_error \<times> string) + pyval)" where
  "fetch_try cfg w endpoint =
     (let url = BACKEND_URL cfg @ ''/analytics/'' @ endpoint
      in case http w url 10 of
           Failed e msg \<Rightarrow> ([Get url 10], Inl (e, msg))
         | Response status body \<Rightarrow>
             if status = 200 then
               (case body of
                  Malformed msg \<Rightarrow> ([Get url 10], Inl (JSONDecodeError, msg))
                | Json v \<Rightarrow>
                    (case py_get v ''data'' (PDict []) of
                       Inl e \<Rightarrow> ([Get url 10],
                                 Inl (e, [CHR 0x27] @ type_name v @ [CHR 0x27] @
                                         '' object has no attribute '' @ [CHR 0x27] @ ''get'' @ [CHR 0x27]))
                     | Inr d \<Rightarrow> ([Get url 10], Inr d)))
             else
               ([Get url 10, StError (''Error fetching '' @ endpoint @ '': '' @ int_str status)],
                Inr PNone))"

text \<open>The first \<^verbatim>\<open>except\<close> clause takes \<^verbatim>\<open>ConnectionError\<close> and its subclasses.\<close>

fun is_connection_error :: "py_error \<Rightarrow> bool" where
  "is_connection_error ConnectionError = True"
| "is_connection_error ConnectTimeout = True"
| "is_connection_error e = False"

definition fetch_data :: "config \<Rightarrow> world \<Rightarrow> string \<Rightarrow> ui_event list \<times> ((py_error \<times> string) + pyval)" where
  "fetch_data cfg w endpoint =
     (case fetch_try cfg w endpoint of
        (evs, Inr v) \<Rightarrow> (evs, Inr v)
      | (evs, Inl (e, msg)) \<Rightarrow>
          if is_connection_error e then
            (evs @ [StError (''Cannot connect to backend at '' @ BACKEND_URL cfg @
                             ''. Make sure the server is running.'')], Inr PNone)
          else
            (evs @ [StError (''Error fetching '' @ endpoint @ '': '' @ msg)], Inr PNone))"

text \<open>A call of \<^verbatim>\<open>fetch_data\<close> inside \<^verbatim>\<open>main\<close>.\<close>

definition call_fetch :: "config \<Rightarrow> world \<Rightarrow> string \<Rightarrow> pyval io" where
  "call_fetch cfg w endpoint =
     (case fetch_data cfg w endpoint of
        (evs, Inl (e, msg)) \<Rightarrow> (evs, Inl (Raised e))
      | (evs, Inr v) \<Rightarrow> (evs, Inr v))"

section \<open>The library calls of the panels\<close>

text \<open>
  \<^verbatim>\<open>v[:n]\<close>: lists and strings can be sliced, a dict or a number cannot (for a dict the
  class of the exception depends on the interpreter's version; the model says
  \<open>TypeError\<close>).
\<close>

fun py_slice :: "pyval \<Rightarrow> nat \<Rightarrow> py_error + pyval" where
  "py_slice (PList xs) n = Inr (PList (take n xs))"
| "py_slice (PStr s) n = Inr (PStr (take n s))"
| "py_slice v n = Inl TypeError"

fun is_dict :: "pyval \<Rightarrow> bool" where
  "is_dict (PDict kvs) = True"
| "is_dict v = False"

fun dict_items :: "pyval \<Rightarrow> row" where
  "dict_items (PDict kvs) = kvs"
| "dict_items v = []"

text \<open>
  \<^verbatim>\<open>pd.DataFrame(v)\<close>: a list of records gives one row for each record; a scalar or a
  string is refused by the constructor.
\<close>

fun pd_DataFrame :: "pyval \<Rightarrow> py_error + frame" where
  "pd_DataFrame (PList xs) =
     (if list_all is_dict xs then Inr (Frame (map dict_items xs)) else Inl NotModelled)"
| "pd_DataFrame (PDict kvs) = Inl NotModelled"
| "pd_DataFrame PNone = Inr (Frame [])"
| "pd_DataFrame v = Inl ValueError"

fun frame_rows :: "frame \<Rightarrow> row list" where
  "frame_rows (Frame rs) = rs"
| "frame_rows (Sorted c f) = frame_rows f"

definition columns :: "frame \<Rightarrow> string list" where
  "columns f = concat (map (map fst) (frame_rows f))"

text \<open>\<^verbatim>\<open>df.empty\<close>: no rows or no columns.\<close>

definition df_empty :: "frame \<Rightarrow> bool" where
  "df_empty f = (frame_rows f = [] \<or> columns f = [])"

fun is_number :: "pyval \<Rightarrow> bool" where
  "is_number (PInt n) = True"
| "is_number (PFloat x) = True"
| "is_number (PBool b) = True"
| "is_number v = False"

fun is_str :: "pyval \<Rightarrow> bool" where
  "is_str (PStr s) = True"
| "is_str v = False"

definition column_cells :: "frame \<Rightarrow> string \<Rightarrow> pyval list" where
  "column_cells f c = concat (map (\<lambda>r. case map_of r c of None \<Rightarrow> [] | Some v \<Rightarrow> [v]) (frame_rows f))"

text \<open>
  \<^verbatim>\<open>df.sort_values(c)\<close>: a missing column is a \<^verbatim>\<open>KeyError\<close>. The sorted frame is kept
  symbolic (\<open>Sorted c f\<close>); columns that mix kinds of values are not modelled.
\<close>

definition sort_values :: "frame \<Rightarrow> string \<Rightarrow> py_error + frame" where
  "sort_values f c =
     (if c \<notin> set (columns f) then Inl KeyError
      else if list_all (\<lambda>v. is_number v \<or> v = PNone) (column_cells f c)
              \<or> list_all (\<lambda>v. is_str v \<or> v = PNone) (column_cells f c)
      then Inr (Sorted c f) else Inl NotModelled)"

text \<open>\<^verbatim>\<open>df[c]\<close>.\<close>

definition df_col :: "frame \<Rightarrow> string \<Rightarrow> py_error + series" where
  "df_col f c = (if c \<in> set (columns f) then Inr (Column c f) else Inl KeyError)"

fun is_scalar :: "pyval \<Rightarrow> bool" where
  "is_scalar (PList xs) = False"
| "is_scalar (PDict kvs) = False"
| "is_scalar v = True"

text \<open>
  \<^verbatim>\<open>px.bar(df, x=.., y=.., color=..)\<close>: every named column has to be in the frame. Cells
  that are themselves lists or dicts are not modelled.
\<close>

definition px_bar :: "frame \<Rightarrow> string \<Rightarrow> string \<Rightarrow> string \<Rightarrow> py_error + figure" where
  "px_bar f x y color =
     (if \<not> (x \<in> set (columns f) \<and> y \<in> set (columns f) \<and> color \<in> set (columns f)) then Inl ValueError
      else if list_all is_scalar (column_cells f x @ column_cells f y @ column_cells f color)
      then Inr (PxBar f x y color) else Inl NotModelled)"

text \<open>One \<^verbatim>\<open>go.Scatter\<close> or \<^verbatim>\<open>go.Bar\<close> trace: \<^verbatim>\<open>x=df[cx], y=df[cy]\<close>, in this order.\<close>

definition go_trace :: "(string \<Rightarrow> series \<Rightarrow> series \<Rightarrow> gtrace) \<Rightarrow> string \<Rightarrow> frame \<Rightarrow> string \<Rightarrow> string \<Rightarrow> py_error + gtrace" where
  "go_trace mk name f cx cy =
     (case df_col f cx of
        Inl e \<Rightarrow> Inl e
      | Inr sx \<Rightarrow>
          (case df_col f cy of
             Inl e \<Rightarrow> Inl e
           | Inr sy \<Rightarrow>
               if list_all is_scalar (column_cells f cx @ column_cells f cy)
               then Inr (mk name sx sy) else Inl NotModelled))"

text \<open>\<^verbatim>\<open>k.replace("_", " ").title()\<close> on ASCII text.\<close>

definition is_lower :: "char \<Rightarrow> bool" where
  "is_lower c = (97 \<le> (of_char c :: nat) \<and> (of_char c :: nat) \<le> 122)"

definition is_upper :: "char \<Rightarrow> bool" where
  "is_upper c = (65 \<le> (of_char c :: nat) \<and> (of_char c :: nat) \<le> 90)"

fun title_from :: "bool \<Rightarrow> string \<Rightarrow> string" where
  "title_from prev [] = []"
| "title_from prev (c # cs) =
     (if is_lower c then (if prev then c else char_of ((of_char c :: nat) - 32)) # title_from True cs
      else if is_upper c then (if prev then char_of ((of_char c :: nat) + 32) else c) # title_from True cs
      else c # title_from False cs)"

definition category_label :: "string \<Rightarrow> string" where
  "category_label k = title_from False (map (\<lambda>c. if c = CHR ''_'' then CHR '' '' else c) k)"

section \<open>The render cycle\<close>

text \<open>\<^verbatim>\<open>st.metric(label=.., value=format_number(summary.get(key, 0)))\<close>.\<close>

definition metric :: "pyval \<Rightarrow> string \<Rightarrow> string \<Rightarrow> unit io" where
  "metric summary label key =
     bind (lift (py_get summary key (PInt 0))) (\<lambda>v.
     bind (lift (format_number v)) (\<lambda>s.
     emit [Metric label s]))"

definition success_rate_metric :: "pyval \<Rightarrow> unit io" where
  "success_rate_metric summary =
     bind (lift (py_get summary ''success_rate'' (PInt 100))) (\<lambda>success_rate.
     bind (lift (py_fmt_1f success_rate)) (\<lambda>s.
     emit [Metric ''Success Rate'' (s @ ''%'')]))"

text \<open>
  The sidebar reads the two settings, probes \<^verbatim>\<open>/health\<close> (its bare \<^verbatim>\<open>except\<close> takes
  every failure) and restarts the script at once when the button was pressed.

  \<^verbatim>\<open>st.slider(label, 10, 120, REFRESH_INTERVAL)\<close> hands back the operator's position, or
  the default while the slider is untouched. What the widget does with a default or a
  position outside its bounds is not modelled.
\<close>

definition st_slider :: "int \<Rightarrow> int \<Rightarrow> int \<Rightarrow> int option \<Rightarrow> py_error + int" where
  "st_slider lo hi dflt pos =
     (if \<not> (lo \<le> dflt \<and> dflt \<le> hi) then Inl NotModelled
      else case pos of
             None \<Rightarrow> Inr dflt
           | Some v \<Rightarrow> if lo \<le> v \<and> v \<le> hi then Inr v else Inl NotModelled)"

definition st_checkbox :: "bool \<Rightarrow> bool option \<Rightarrow> bool" where
  "st_checkbox dflt box = (case box of None \<Rightarrow> dflt | Some b \<Rightarrow> b)"

definition health_status :: "config \<Rightarrow> world \<Rightarrow> ui_event list" where
  "health_status cfg w =
     (let url = BACKEND_URL cfg @ ''/health''
      in case http w url 5 of
           Response status body \<Rightarrow>
             if status = 200 then [Get url 5, StSuccess ''Backend Online'']
             else [Get url 5, StError ''Backend Error'']
         | Failed e msg \<Rightarrow> [Get url 5, StError ''Backend Offline''])"

definition sidebar :: "config \<Rightarrow> world \<Rightarrow> (bool \<times> int) io" where
  "sidebar cfg w =
     bind (emit [Image ''https://cynchrony.in/logo.png'',
                 Markdown ''---'',
                 Markdown ''### Settings'',
                 Checkbox ''Auto-refresh'' True,
                 Slider ''Refresh interval (seconds)'' 10 120 (REFRESH_INTERVAL cfg)]) (\<lambda>_.
     bind (lift (st_slider 10 120 (REFRESH_INTERVAL cfg) (slider_pos w))) (\<lambda>refresh_interval.
     bind (emit ([Markdown ''---'',
                  Markdown ''### Quick Links'',
                  Markdown (''- [API Docs]('' @ BACKEND_URL cfg @ ''/docs)''),
                  Markdown (''- [Health Check]('' @ BACKEND_URL cfg @ ''/health)''),
                  Markdown ''---'',
                  Markdown ''### Backend Status'']
                 @ health_status cfg w
                 @ [Button ''Refresh Now''])) (\<lambda>_.
     if refresh_now w then leave Rerun
     else ([], Inr (st_checkbox True (auto_refresh_box w), refresh_interval)))))"

definition overview :: "pyval \<Rightarrow> unit io" where
  "overview summary =
     seq_io [emit [Markdown ''### Overview''],
             metric summary ''Total API Calls'' ''total_api_calls'',
             success_rate_metric summary,
             metric summary ''Total Errors'' ''total_errors'',
             metric summary ''AI Chat Calls'' ''ai_chat_calls'',
             metric summary ''AI Generation'' ''ai_generation_calls'',
             emit [Markdown ''---'']]"

definition processing :: "pyval \<Rightarrow> unit io" where
  "processing summary =
     seq_io [emit [Markdown ''### Processing Operations''],
             metric summary ''PDF Processing'' ''pdf_processing'',
             metric summary ''Image Processing'' ''image_processing'',
             metric summary ''Video Processing'' ''video_processing'',
             metric summary ''Audio Processing'' ''audio_processing'',
             metric summary ''Code Executions'' ''code_executions'',
             metric summary ''File Uploads'' ''file_uploads'',
             emit [Markdown ''---'']]"

definition category_panel :: "pyval \<Rightarrow> unit io" where
  "category_panel summary =
     bind (emit [Markdown ''### Category Breakdown'']) (\<lambda>_.
     bind (lift (py_get summary ''category_breakdown'' (PDict []))) (\<lambda>category_data.
     if py_truthy category_data then
       (if is_dict category_data then
          bind (lift (sort_values
                  (Frame (map (\<lambda>(k, v). [(''Category'', PStr (category_label k)), (''Count'', v)])
                              (dict_items category_data))) ''Count'')) (\<lambda>df.
          bind (lift (px_bar df ''Count'' ''Category'' ''Count'')) (\<lambda>fig.
          emit [PlotlyChart fig]))
        else leave (Raised AttributeError))
     else emit [StInfo ''No category data available yet.'']))"

text \<open>
  Each of the four dataset panels: its heading, its own call of \<^verbatim>\<open>fetch_data\<close>, and
  what it draws from the result.
\<close>

definition endpoints_view :: "pyval \<Rightarrow> unit io" where
  "endpoints_view endpoints =
     (if py_truthy endpoints then
        bind (lift (py_slice endpoints 10)) (\<lambda>top.
        bind (lift (pd_DataFrame top)) (\<lambda>df.
        if \<not> df_empty df then
          bind (lift (px_bar df ''count'' ''endpoint'' ''success_rate'')) (\<lambda>fig.
          emit [PlotlyChart fig])
        else emit []))
      else emit [StInfo ''No endpoint data available yet.''])"

definition endpoints_panel :: "config \<Rightarrow> world \<Rightarrow> unit io" where
  "endpoints_panel cfg w =
     bind (emit [Markdown ''### Top Endpoints'']) (\<lambda>_.
     bind (call_fetch cfg w ''endpoints'') endpoints_view)"

definition hourly_view :: "pyval \<Rightarrow> unit io" where
  "hourly_view hourly =
     (if py_truthy hourly then
        bind (lift (pd_DataFrame hourly)) (\<lambda>df.
        if \<not> df_empty df then
          bind (lift (go_trace Scatter ''Total Calls'' df ''hour'' ''count'')) (\<lambda>t1.
          bind (lift (go_trace Scatter ''Successful'' df ''hour'' ''success_count'')) (\<lambda>t2.
          bind (lift (go_trace Scatter ''Errors'' df ''hour'' ''error_count'')) (\<lambda>t3.
          emit [PlotlyChart (GoFigure [t1, t2, t3])])))
        else emit [])
      else emit [StInfo ''No hourly data available yet.''])"

definition hourly_panel :: "config \<Rightarrow> world \<Rightarrow> unit io" where
  "hourly_panel cfg w =
     bind (emit [Markdown ''---'', Markdown ''### Hourly Activity (Last 24 Hours)'']) (\<lambda>_.
     bind (call_fetch cfg w ''hourly'') hourly_view)"

definition business :: "pyval \<Rightarrow> unit io" where
  "business summary =
     seq_io [emit [Markdown ''---'', Markdown ''### Business Metrics''],
             metric summary ''Auth Events'' ''authentication_events'',
             metric summary ''Payment Events'' ''payment_events'',
             metric summary ''Assessments'' ''assessment_events'',
             metric summary ''Interviews'' ''interview_events'',
             metric summary ''Resume Ops'' ''resume_operations'',
             emit [Markdown ''---'']]"

definition errors_view :: "pyval \<Rightarrow> unit io" where
  "errors_view errors =
     (if py_truthy errors then
        bind (lift (py_slice errors 20)) (\<lambda>recent.
        bind (lift (pd_DataFrame recent)) (\<lambda>df.
        if \<not> df_empty df then emit [StDataframe df]
        else emit [StSuccess ''No errors recorded!'']))
      else emit [StSuccess ''No errors recorded!''])"

definition errors_panel :: "config \<Rightarrow> world \<Rightarrow> unit io" where
  "errors_panel cfg w =
     bind (emit [Markdown ''### Recent Errors'']) (\<lambda>_.
     bind (call_fetch cfg w ''errors'') errors_view)"

definition daily_view :: "pyval \<Rightarrow> unit io" where
  "daily_view daily =
     (if py_truthy daily then
        bind (lift (pd_DataFrame daily)) (\<lambda>df0.
        if \<not> df_empty df0 then
          bind (lift (sort_values df0 ''date'')) (\<lambda>df.
          bind (lift (go_trace Bar ''Successful'' df ''date'' ''successful_calls'')) (\<lambda>t1.
          bind (lift (go_trace Bar ''Failed'' df ''date'' ''failed_calls'')) (\<lambda>t2.
          emit [PlotlyChart (GoFigure [t1, t2])])))
        else emit [])
      else emit [StInfo ''No daily data available yet.''])"

definition daily_panel :: "config \<Rightarrow> world \<Rightarrow> unit io" where
  "daily_panel cfg w =
     bind (emit [Markdown ''---'', Markdown ''### Daily Statistics (Last 30 Days)'']) (\<lambda>_.
     bind (call_fetch cfg w ''daily'') daily_view)"

text \<open>\<^verbatim>\<open>time.sleep\<close> refuses a negative length; \<^verbatim>\<open>st.rerun()\<close> never returns.\<close>

definition auto_refresh_step :: "bool \<Rightarrow> int \<Rightarrow> unit io" where
  "auto_refresh_step auto_refresh refresh_interval =
     (if auto_refresh then
        (if refresh_interval < 0 then leave (Raised ValueError)
         else bind (emit [Sleep refresh_interval]) (\<lambda>_. leave Rerun))
      else emit [])"

text \<open>Everything between the summary check and the auto-refresh, in source order.\<close>

definition panels :: "config \<Rightarrow> world \<Rightarrow> pyval \<Rightarrow> unit io list" where
  "panels cfg w summary =
     [overview summary,
      processing summary,
      category_panel summary,
      endpoints_panel cfg w,
      hourly_panel cfg w,
      business summary,
      errors_panel cfg w,
      daily_panel cfg w,
      emit [Markdown ''---'', Footer (BACKEND_URL cfg)]]"

definition main_io :: "config \<Rightarrow> world \<Rightarrow> unit io" where
  "main_io cfg w =
     bind (emit [Markdown ''Cynchrony Analytics Dashboard'']) (\<lambda>_.
     bind (sidebar cfg w) (\<lambda>(auto_refresh, refresh_interval).
     bind (call_fetch cfg w ''summary'') (\<lambda>summary.
     if summary = PNone then
       bind (emit [StWarning ''Unable to fetch analytics data. Please check the backend connection.'',
                   StInfo (''Trying to connect to: '' @ BACKEND_URL cfg)]) (\<lambda>_.
       leave Returned)
     else
       bind (seq_io (panels cfg w summary)) (\<lambda>_.
       auto_refresh_step auto_refresh refresh_interval))))"

text \<open>One run of \<^verbatim>\<open>main()\<close>: what was put on the page and how the run ended.\<close>

definition main :: "config \<Rightarrow> world \<Rightarrow> ui_event list \<times> outcome" where
  "main cfg w =
     (case main_io cfg w of
        (evs, Inl out) \<Rightarrow> (evs, out)
      | (evs, Inr u) \<Rightarrow> (evs, Returned))"


section \<open>Notions used to state the properties\<close>

text \<open>The number a numeric Python value stands for (\<^verbatim>\<open>bool\<close> is a subclass of \<^verbatim>\<open>int\<close>).\<close>

fun num_value :: "pyval \<Rightarrow> rat option" where
  "num_value (PInt n) = Some (of_int n)"
| "num_value (PFloat x) = Some x"
| "num_value (PBool b) = Some (if b then 1 else 0)"
| "num_value v = None"

text \<open>
  The specification's expression \<^verbatim>\<open>"{n/k:.1f}<suffix>"\<close>: Python's true division of
  \<open>n\<close> by \<open>k\<close>, one million or one thousand, formatted to one decimal.
\<close>

definition fstring_div_1f :: "pyval \<Rightarrow> int \<Rightarrow> string \<Rightarrow> py_error + string" where
  "fstring_div_1f n k suffix =
     (case py_truediv n k of Inl e \<Rightarrow> Inl e | Inr d \<Rightarrow> Inr (fmt_1f d @ suffix))"

text \<open>The address \<^verbatim>\<open>fetch_data\<close> asks for, and the diagnostics it shows.\<close>

definition analytics_url :: "config \<Rightarrow> string \<Rightarrow> string" where
  "analytics_url cfg endpoint = BACKEND_URL cfg @ ''/analytics/'' @ endpoint"

fun is_diagnostic :: "ui_event \<Rightarrow> bool" where
  "is_diagnostic (StError m) = True"
| "is_diagnostic ev = False"

text \<open>A response of status 200 whose body is an object with \<^verbatim>\<open>"data": null\<close>.\<close>

fun null_payload :: "http_outcome \<Rightarrow> bool" where
  "null_payload (Response status (Json (PDict kvs))) = (status = 200 \<and> map_of kvs ''data'' = Some PNone)"
| "null_payload out = False"

text \<open>
  Parts of the page that every run shows, and what is read off a run: the requests it
  sent, its warnings, its dashboard content, its sleeps.
\<close>

definition sidebar_page :: "config \<Rightarrow> world \<Rightarrow> ui_event list" where
  "sidebar_page cfg w =
     [Image ''https://cynchrony.in/logo.png'',
      Markdown ''---'',
      Markdown ''### Settings'',
      Checkbox ''Auto-refresh'' True,
      Slider ''Refresh interval (seconds)'' 10 120 (REFRESH_INTERVAL cfg),
      Markdown ''---'',
      Markdown ''### Quick Links'',
      Markdown (''- [API Docs]('' @ BACKEND_URL cfg @ ''/docs)''),
      Markdown (''- [Health Check]('' @ BACKEND_URL cfg @ ''/health)''),
      Markdown ''---'',
      Markdown ''### Backend Status'']
     @ health_status cfg w
     @ [Button ''Refresh Now'']"

fun is_raised :: "outcome \<Rightarrow> bool" where
  "is_raised (Raised e) = True"
| "is_raised out = False"

definition page_head :: "config \<Rightarrow> world \<Rightarrow> ui_event list" where
  "page_head cfg w =
     Markdown ''Cynchrony Analytics Dashboard'' # sidebar_page cfg w @ fst (fetch_data cfg w ''summary'')"

fun request_of :: "ui_event \<Rightarrow> (string \<times> nat) list" where
  "request_of (Get url t) = [(url, t)]"
| "request_of ev = []"

definition requests_of :: "ui_event list \<Rightarrow> (string \<times> nat) list" where
  "requests_of evs = concat (map request_of evs)"

fun is_warning :: "ui_event \<Rightarrow> bool" where
  "is_warning (StWarning m) = True"
| "is_warning ev = False"

fun is_content :: "ui_event \<Rightarrow> bool" where
  "is_content (Metric l v) = True"
| "is_content (PlotlyChart f) = True"
| "is_content (StDataframe f) = True"
| "is_content ev = False"

fun is_schedule :: "ui_event \<Rightarrow> bool" where
  "is_schedule (Sleep n) = True"
| "is_schedule ev = False"

definition summary_fetched :: "config \<Rightarrow> world \<Rightarrow> bool" where
  "summary_fetched cfg w = (case snd (sidebar cfg w) of Inl out \<Rightarrow> False | Inr p \<Rightarrow> True)"

definition full_render :: "config \<Rightarrow> world \<Rightarrow> bool" where
  "full_render cfg w =
     (summary_fetched cfg w \<and> snd (fetch_data cfg w ''summary'') \<noteq> Inr PNone \<and>
      \<not> is_raised (snd (main cfg w)))"

text \<open>Two settings and a backend that refuses every connection.\<close>

definition example_cfg :: config where
  "example_cfg = \<lparr>BACKEND_URL = ''http://backend'', REFRESH_INTERVAL = 30\<rparr>"

definition backend_down :: world where
  "backend_down =
     \<lparr>http = (\<lambda>url t. Failed ConnectionError ''Connection refused''),
      auto_refresh_box = None, slider_pos = None, refresh_now = False\<rparr>"

text \<open>
  Events that are neither a request, a sleep nor a warning; the four datasets with their
  panels, headings and placeholders; a world with one address answering differently; a
  command that can only go on or raise.
\<close>

definition quiet :: "ui_event \<Rightarrow> bool" where
  "quiet ev = (request_of ev = [] \<and> \<not> is_schedule ev \<and> \<not> is_warning ev)"

definition datasets :: "string list" where
  "datasets = [''endpoints'', ''hourly'', ''errors'', ''daily'']"

definition dataset_panel :: "string \<Rightarrow> config \<Rightarrow> world \<Rightarrow> unit io" where
  "dataset_panel name =
     (if name = ''endpoints'' then endpoints_panel
      else if name = ''hourly'' then hourly_panel
      else if name = ''errors'' then errors_panel
      else daily_panel)"

definition dataset_heading :: "string \<Rightarrow> ui_event list" where
  "dataset_heading name =
     (if name = ''endpoints'' then [Markdown ''### Top Endpoints'']
      else if name = ''hourly'' then [Markdown ''---'', Markdown ''### Hourly Activity (Last 24 Hours)'']
      else if name = ''errors'' then [Markdown ''### Recent Errors'']
      else [Markdown ''---'', Markdown ''### Daily Statistics (Last 30 Days)''])"

definition placeholder :: "string \<Rightarrow> ui_event" where
  "placeholder name =
     (if name = ''endpoints'' then StInfo ''No endpoint data available yet.''
      else if name = ''hourly'' then StInfo ''No hourly data available yet.''
      else if name = ''errors'' then StSuccess ''No errors recorded!''
      else StInfo ''No daily data available yet.'')"

definition with_response :: "world \<Rightarrow> string \<Rightarrow> (nat \<Rightarrow> http_outcome) \<Rightarrow> world" where
  "with_response w url out = w\<lparr>http := (http w)(url := out)\<rparr>"

definition dataset_view :: "string \<Rightarrow> pyval \<Rightarrow> unit io" where
  "dataset_view name =
     (if name = ''endpoints'' then endpoints_view
      else if name = ''hourly'' then hourly_view
      else if name = ''errors'' then errors_view
      else daily_view)"

definition only_raises :: "'a io \<Rightarrow> bool" where
  "only_raises m = (case snd m of Inl out \<Rightarrow> is_raised out | Inr a \<Rightarrow> True)"

text \<open>
  A backend with a summary and four empty datasets (the float is the one nearest 97.2),
  the operator having set the slider to 15; and the same with auto-refresh switched off.
\<close>

definition backend_quiet :: world where
  "backend_quiet =
     \<lparr>http = (\<lambda>url t.
        if url = ''http://backend/health'' then Response 200 (Json (PDict [(''status'', PStr ''ok'')]))
        else if url = ''http://backend/analytics/summary'' then
          Response 200 (Json (PDict [(''data'',
            PDict [(''total_api_calls'', PInt 1500),
                   (''success_rate'', PFloat (6839841934068941 / 70368744177664)),
                   (''total_errors'', PInt 10)])]))
        else Response 200 (Json (PDict [(''data'', PList [])]))),
      auto_refresh_box = None, slider_pos = Some 15, refresh_now = False\<rparr>"


text \<open>Metrics and the events a chart panel can show; the page of a summary without fields.\<close>

fun is_metric :: "ui_event \<Rightarrow> bool" where
  "is_metric (Metric l v) = True"
| "is_metric ev = False"

fun is_static :: "ui_event \<Rightarrow> bool" where
  "is_static (Markdown m) = True"
| "is_static (StInfo m) = True"
| "is_static (StSuccess m) = True"
| "is_static (PlotlyChart f) = True"
| "is_static (StDataframe f) = True"
| "is_static ev = False"

definition default_metrics_top :: "ui_event list" where
  "default_metrics_top =
     [Metric ''Total API Calls'' ''0'',
      Metric ''Success Rate'' ''100.0%'',
      Metric ''Total Errors'' ''0'',
      Metric ''AI Chat Calls'' ''0'',
      Metric ''AI Generation'' ''0'',
      Metric ''PDF Processing'' ''0'',
      Metric ''Image Processing'' ''0'',
      Metric ''Video Processing'' ''0'',
      Metric ''Audio Processing'' ''0'',
      Metric ''Code Executions'' ''0'',
      Metric ''File Uploads'' ''0'']"

definition default_metrics_business :: "ui_event list" where
  "default_metrics_business =
     [Metric ''Auth Events'' ''0'',
      Metric ''Payment Events'' ''0'',
      Metric ''Assessments'' ''0'',
      Metric ''Interviews'' ''0'',
      Metric ''Resume Ops'' ''0'']"

text \<open>The fifteen counters of the summary: the label shown and the key read.\<close>

definition counters :: "(string \<times> string) list" where
  "counters =
     [(''Total API Calls'', ''total_api_calls''),
      (''Total Errors'', ''total_errors''),
      (''AI Chat Calls'', ''ai_chat_calls''),
      (''AI Generation'', ''ai_generation_calls''),
      (''PDF Processing'', ''pdf_processing''),
      (''Image Processing'', ''image_processing''),
      (''Video Processing'', ''video_processing''),
      (''Audio Processing'', ''audio_processing''),
      (''Code Executions'', ''code_executions''),
      (''File Uploads'', ''file_uploads''),
      (''Auth Events'', ''authentication_events''),
      (''Payment Events'', ''payment_events''),
      (''Assessments'', ''assessment_events''),
      (''Interviews'', ''interview_events''),
      (''Resume Ops'', ''resume_operations'')]"






text \<open>
  Further worlds for the examples: an answer with two hourly buckets, a backend whose
  summary answer has no \<^verbatim>\<open>data\<close> key, and the eleven records ranked by count.
\<close>

definition hourly_answer :: "nat \<Rightarrow> http_outcome" where
  "hourly_answer t =
     Response 200 (Json (PDict [(''data'',
       PList [PDict [(''hour'', PStr ''2024-01-01 10:00''), (''count'', PInt 12),
                     (''success_count'', PInt 11), (''error_count'', PInt 1)],
              PDict [(''hour'', PStr ''2024-01-01 11:00''), (''count'', PInt 7),
                     (''success_count'', PInt 7), (''error_count'', PInt 0)]])]))"

definition backend_bare :: world where
  "backend_bare =
     \<lparr>http = (\<lambda>url t.
        if url = ''http://backend/analytics/summary'' then Response 200 (Json (PDict []))
        else Response 200 (Json (PDict [(''data'', PList [])]))),
      auto_refresh_box = Some False, slider_pos = None, refresh_now = False\<rparr>"


section \<open>Formatting helpers: the properties\<close>

lemma py_ge_num: "num_value v = Some r \<Longrightarrow> py_ge v k = Inr (of_int k \<le> r)"
  by (cases v) auto

text \<open>
  C4. For every numeric input \<open>n\<close>, \<open>format_number n\<close> is \<^verbatim>\<open>"{n/1e6:.1f}M"\<close> when
  \<open>n \<ge> 1000000\<close>, \<^verbatim>\<open>"{n/1e3:.1f}K"\<close> when \<open>1000 \<le> n < 1000000\<close>, and \<^verbatim>\<open>str(n)\<close>
  otherwise; in particular 1500000 gives "1.5M", 2500 gives "2.5K" and 42 gives "42".
\<close>

theorem format_number_spec:
  "(num_value n = Some r \<longrightarrow>
      (1000000 \<le> r \<longrightarrow> format_number n = fstring_div_1f n 1000000 ''M'') \<and>
      (1000 \<le> r \<and> r < 1000000 \<longrightarrow> format_number n = fstring_div_1f n 1000 ''K'') \<and>
      (r < 1000 \<longrightarrow> format_number n = py_str n)) \<and>
   format_number (PInt 1500000) = Inr ''1.5M'' \<and>
   format_number (PInt 2500) = Inr ''2.5K'' \<and>
   format_number (PInt 42) = Inr ''42''"
proof -
  have general: "(1000000 \<le> r \<longrightarrow> format_number n = fstring_div_1f n 1000000 ''M'') \<and>
      (1000 \<le> r \<and> r < 1000000 \<longrightarrow> format_number n = fstring_div_1f n 1000 ''K'') \<and>
      (r < 1000 \<longrightarrow> format_number n = py_str n)" if v: "num_value n = Some r"
    by (simp add: format_number_def fstring_div_1f_def py_ge_num [OF v] split: sum.splits)
  have m: "format_number (PInt 1500000) = Inr ''1.5M''" by code_simp
  have k: "format_number (PInt 2500) = Inr ''2.5K''" by code_simp
  have u: "format_number (PInt 42) = Inr ''42''" by code_simp
  from general m k u show ?thesis by blast
qed

theorem format_number_spec_witness:
  "format_number (PInt 1500000) = fstring_div_1f (PInt 1500000) 1000000 ''M'' \<and>
   format_number (PFloat 2500) = fstring_div_1f (PFloat 2500) 1000 ''K'' \<and>
   format_number (PInt 42) = py_str (PInt 42) \<and>
   fstring_div_1f (PFloat 2500) 1000 ''K'' = Inr ''2.5K''"
proof -
  have "fstring_div_1f (PFloat 2500) 1000 ''K'' = Inr ''2.5K''" by code_simp
  then show ?thesis
    using format_number_spec [of "PInt 1500000" 1500000]
      format_number_spec [of "PFloat 2500" 2500]
      format_number_spec [of "PInt 42" 42]
    by simp
qed

text \<open>
  C5. For every rate \<open>r\<close>, \<open>get_success_rate_color\<close> selects the high class exactly when
  \<open>r \<ge> 95\<close>, the medium class exactly when \<open>80 \<le> r < 95\<close>, and the low class exactly
  when \<open>r < 80\<close>; 95 gives high, 94.9 medium, 80 medium and 79.9 low.
\<close>

theorem get_success_rate_color_spec:
  "(num_value rate = Some r \<longrightarrow>
      (get_success_rate_color rate = Inr ''success-rate-high'') = (95 \<le> r) \<and>
      (get_success_rate_color rate = Inr ''success-rate-medium'') = (80 \<le> r \<and> r < 95) \<and>
      (get_success_rate_color rate = Inr ''success-rate-low'') = (r < 80)) \<and>
   get_success_rate_color (PInt 95) = Inr ''success-rate-high'' \<and>
   get_success_rate_color (PFloat (949 / 10)) = Inr ''success-rate-medium'' \<and>
   get_success_rate_color (PInt 80) = Inr ''success-rate-medium'' \<and>
   get_success_rate_color (PFloat (799 / 10)) = Inr ''success-rate-low''"
proof -
  have general: "(get_success_rate_color rate = Inr ''success-rate-high'') = (95 \<le> r) \<and>
      (get_success_rate_color rate = Inr ''success-rate-medium'') = (80 \<le> r \<and> r < 95) \<and>
      (get_success_rate_color rate = Inr ''success-rate-low'') = (r < 80)"
    if v: "num_value rate = Some r"
    by (cases "95 \<le> r"; cases "80 \<le> r")
       (simp_all add: get_success_rate_color_def py_ge_num [OF v])
  have "get_success_rate_color (PInt 95) = Inr ''success-rate-high''"
    and "get_success_rate_color (PFloat (949 / 10)) = Inr ''success-rate-medium''"
    and "get_success_rate_color (PInt 80) = Inr ''success-rate-medium''"
    and "get_success_rate_color (PFloat (799 / 10)) = Inr ''success-rate-low''"
    by (simp_all add: get_success_rate_color_def)
  with general show ?thesis by blast
qed

theorem get_success_rate_color_spec_witness:
  "get_success_rate_color (PFloat (972 / 10)) = Inr ''success-rate-high'' \<and>
   get_success_rate_color (PFloat (972 / 10)) \<noteq> Inr ''success-rate-medium'' \<and>
   get_success_rate_color (PFloat (972 / 10)) \<noteq> Inr ''success-rate-low''"
  using get_success_rate_color_spec [of "PFloat (972 / 10)" "972 / 10"]
  by simp

section \<open>The fetcher: the properties\<close>

lemma fetch_data_returns: "\<exists>evs v. fetch_data cfg w endpoint = (evs, Inr v)"
  by (auto simp add: fetch_data_def split: prod.splits sum.splits)

lemma fetch_data_outcomes:
  assumes "http w (analytics_url cfg endpoint) 10 = out"
  shows "(out = Response status body \<and> status \<noteq> 200 \<longrightarrow>
      fetch_data cfg w endpoint =
        ([Get (analytics_url cfg endpoint) 10,
          StError (''Error fetching '' @ endpoint @ '': '' @ int_str status)], Inr PNone)) \<and>
     (out = Failed ConnectionError msg \<longrightarrow>
      fetch_data cfg w endpoint =
        ([Get (analytics_url cfg endpoint) 10,
          StError (''Cannot connect to backend at '' @ BACKEND_URL cfg @
                   ''. Make sure the server is running.'')], Inr PNone)) \<and>
     (out = Response 200 (Malformed msg) \<longrightarrow>
      fetch_data cfg w endpoint =
        ([Get (analytics_url cfg endpoint) 10,
          StError (''Error fetching '' @ endpoint @ '': '' @ msg)], Inr PNone)) \<and>
     (out = Failed ReadTimeout msg \<longrightarrow>
      fetch_data cfg w endpoint =
        ([Get (analytics_url cfg endpoint) 10,
          StError (''Error fetching '' @ endpoint @ '': '' @ msg)], Inr PNone)) \<and>
     (out = Failed ConnectTimeout msg \<longrightarrow>
      fetch_data cfg w endpoint =
        ([Get (analytics_url cfg endpoint) 10,
          StError (''Cannot connect to backend at '' @ BACKEND_URL cfg @
                   ''. Make sure the server is running.'')], Inr PNone))"
  using assms by (simp add: fetch_data_def fetch_try_def analytics_url_def)

lemma fetch_data_absent_diagnostic:
  "snd (fetch_data cfg w endpoint) = Inr PNone \<Longrightarrow>
   \<not> null_payload (http w (analytics_url cfg endpoint) 10) \<Longrightarrow>
   list_ex is_diagnostic (fst (fetch_data cfg w endpoint))"
proof (cases "http w (analytics_url cfg endpoint) 10")
  case (Failed e msg)
  then show ?thesis
    by (simp add: fetch_data_def fetch_try_def analytics_url_def Let_def)
next
  case (Response status body)
  assume absent: "snd (fetch_data cfg w endpoint) = Inr PNone"
    and present: "\<not> null_payload (http w (analytics_url cfg endpoint) 10)"
  show ?thesis
  proof (cases body)
    case (Malformed msg)
    with Response show ?thesis
      by (simp add: fetch_data_def fetch_try_def analytics_url_def Let_def)
  next
    case (Json v)
    with Response absent present show ?thesis
      by (cases v) (auto simp add: fetch_data_def fetch_try_def analytics_url_def Let_def
          split: if_splits option.splits)
  qed
qed

text \<open>
  C1. For every endpoint name, \<open>fetch_data\<close> returns the absent result \<open>None\<close> and
  never raises to its caller when the status is not 200, when the connection is refused,
  when the body is malformed JSON, or when the timeout of 10 is exceeded (while connecting
  or while reading); each of these paths shows a diagnostic before it returns. More
  generally, whenever the result is absent a diagnostic was shown, unless the backend
  itself answered 200 with a null payload.
\<close>

theorem fetch_data_failures:
  "(\<forall>e. snd (fetch_data cfg w endpoint) \<noteq> Inl e) \<and>
   (http w (analytics_url cfg endpoint) 10 = Response status body \<and> status \<noteq> 200 \<longrightarrow>
      fetch_data cfg w endpoint =
        ([Get (analytics_url cfg endpoint) 10,
          StError (''Error fetching '' @ endpoint @ '': '' @ int_str status)], Inr PNone)) \<and>
   (http w (analytics_url cfg endpoint) 10 = Failed ConnectionError msg \<longrightarrow>
      fetch_data cfg w endpoint =
        ([Get (analytics_url cfg endpoint) 10,
          StError (''Cannot connect to backend at '' @ BACKEND_URL cfg @
                   ''. Make sure the server is running.'')], Inr PNone)) \<and>
   (http w (analytics_url cfg endpoint) 10 = Response 200 (Malformed msg) \<longrightarrow>
      fetch_data cfg w endpoint =
        ([Get (analytics_url cfg endpoint) 10,
          StError (''Error fetching '' @ endpoint @ '': '' @ msg)], Inr PNone)) \<and>
   (http w (analytics_url cfg endpoint) 10 = Failed ReadTimeout msg \<longrightarrow>
      fetch_data cfg w endpoint =
        ([Get (analytics_url cfg endpoint) 10,
          StError (''Error fetching '' @ endpoint @ '': '' @ msg)], Inr PNone)) \<and>
   (http w (analytics_url cfg endpoint) 10 = Failed ConnectTimeout msg \<longrightarrow>
      fetch_data cfg w endpoint =
        ([Get (analytics_url cfg endpoint) 10,
          StError (''Cannot connect to backend at '' @ BACKEND_URL cfg @
                   ''. Make sure the server is running.'')], Inr PNone)) \<and>
   (snd (fetch_data cfg w endpoint) = Inr PNone \<and>
      \<not> null_payload (http w (analytics_url cfg endpoint) 10) \<longrightarrow>
      list_ex is_diagnostic (fst (fetch_data cfg w endpoint)))"
proof -
  have never: "\<forall>e. snd (fetch_data cfg w endpoint) \<noteq> Inl e"
    using fetch_data_returns [of cfg w endpoint] by auto
  from never fetch_data_outcomes [OF refl, where cfg = cfg and endpoint = endpoint and w = w and status = status
      and body = body and msg = msg]
    fetch_data_absent_diagnostic [of cfg w endpoint]
  show ?thesis by blast
qed

theorem fetch_data_failures_witness:
  "fetch_data \<lparr>BACKEND_URL = ''http://b'', REFRESH_INTERVAL = 30\<rparr>
     \<lparr>http = (\<lambda>url t. Response 500 (Json PNone)), auto_refresh_box = None,
      slider_pos = None, refresh_now = False\<rparr> ''summary''
   = ([Get ''http://b/analytics/summary'' 10, StError ''Error fetching summary: 500''], Inr PNone) \<and>
   fetch_data \<lparr>BACKEND_URL = ''http://b'', REFRESH_INTERVAL = 30\<rparr>
     \<lparr>http = (\<lambda>url t. Failed ConnectionError ''refused''), auto_refresh_box = None,
      slider_pos = None, refresh_now = False\<rparr> ''hourly''
   = ([Get ''http://b/analytics/hourly'' 10,
       StError ''Cannot connect to backend at http://b. Make sure the server is running.''],
      Inr PNone) \<and>
   fetch_data \<lparr>BACKEND_URL = ''http://b'', REFRESH_INTERVAL = 30\<rparr>
     \<lparr>http = (\<lambda>url t. Response 200 (Malformed ''Expecting value'')), auto_refresh_box = None,
      slider_pos = None, refresh_now = False\<rparr> ''daily''
   = ([Get ''http://b/analytics/daily'' 10, StError ''Error fetching daily: Expecting value''],
      Inr PNone) \<and>
   fetch_data \<lparr>BACKEND_URL = ''http://b'', REFRESH_INTERVAL = 30\<rparr>
     \<lparr>http = (\<lambda>url t. Failed ReadTimeout ''Read timed out.''), auto_refresh_box = None,
      slider_pos = None, refresh_now = False\<rparr> ''errors''
   = ([Get ''http://b/analytics/errors'' 10, StError ''Error fetching errors: Read timed out.''],
      Inr PNone)"
proof -
  have five: "int_str 500 = ''500''" by code_simp
  show ?thesis
    using
      fetch_data_failures [where cfg = "\<lparr>BACKEND_URL = ''http://b'', REFRESH_INTERVAL = 30\<rparr>"
          and w = "\<lparr>http = (\<lambda>url t. Response 500 (Json PNone)), auto_refresh_box = None, slider_pos = None, refresh_now = False\<rparr>"
          and endpoint = "''summary''"
          and status = 500
          and body = "Json PNone"]
      fetch_data_failures [where cfg = "\<lparr>BACKEND_URL = ''http://b'', REFRESH_INTERVAL = 30\<rparr>"
          and w = "\<lparr>http = (\<lambda>url t. Failed ConnectionError ''refused''), auto_refresh_box = None, slider_pos = None, refresh_now = False\<rparr>"
          and endpoint = "''hourly''"
          and msg = "''refused''"]
      fetch_data_failures [where cfg = "\<lparr>BACKEND_URL = ''http://b'', REFRESH_INTERVAL = 30\<rparr>"
          and w = "\<lparr>http = (\<lambda>url t. Response 200 (Malformed ''Expecting value'')), auto_refresh_box = None, slider_pos = None, refresh_now = False\<rparr>"
          and endpoint = "''daily''"
          and msg = "''Expecting value''"]
      fetch_data_failures [where cfg = "\<lparr>BACKEND_URL = ''http://b'', REFRESH_INTERVAL = 30\<rparr>"
          and w = "\<lparr>http = (\<lambda>url t. Failed ReadTimeout ''Read timed out.''), auto_refresh_box = None, slider_pos = None, refresh_now = False\<rparr>"
          and endpoint = "''errors''"
          and msg = "''Read timed out.''"]
    by (simp add: analytics_url_def five)
qed

section \<open>The render cycle: how a run unfolds\<close>

lemma bind_emit: "bind (emit evs) f = (evs @ fst (f ()), snd (f ()))"
  by (simp add: emit_def split: prod.splits)

lemma bind_lift_Inl: "bind (lift (Inl e)) f = ([], Inl (Raised e))"
  by simp

lemma bind_lift_Inr: "bind (lift (Inr a)) f = f a"
  by (simp split: prod.splits)

lemma bind_leave: "bind (leave out) f = leave out"
  by (simp add: leave_def)

lemma fst_bind: "fst (bind m f) = fst m @ (case snd m of Inl out \<Rightarrow> [] | Inr a \<Rightarrow> fst (f a))"
  by (cases m; cases "snd m") (auto split: prod.splits)

lemma snd_bind: "snd (bind m f) = (case snd m of Inl out \<Rightarrow> Inl out | Inr a \<Rightarrow> snd (f a))"
  by (cases m; cases "snd m") (auto split: prod.splits)

lemma list_all_bind:
  "list_all P (fst m) \<Longrightarrow> (\<And>a. list_all P (fst (f a))) \<Longrightarrow> list_all P (fst (bind m f))"
  by (simp add: fst_bind split: sum.splits)

lemma list_all_lift: "list_all P (fst (lift x))"
  by (cases x) simp_all

lemma list_all_seq_io:
  "(\<And>c. c \<in> set cs \<Longrightarrow> list_all P (fst c)) \<Longrightarrow> list_all P (fst (seq_io cs))"
proof (induction cs)
  case Nil
  then show ?case by (simp add: emit_def)
next
  case (Cons c cs)
  then show ?case by (simp add: list_all_bind)
qed

lemma seq_io_complete:
  "snd (seq_io cs) = Inr u \<Longrightarrow> fst (seq_io cs) = concat (map fst cs) \<and> (\<forall>c \<in> set cs. snd c = Inr ())"
proof (induction cs)
  case Nil
  then show ?case by (simp add: emit_def)
next
  case (Cons c cs)
  then show ?case by (auto simp add: fst_bind snd_bind split: sum.splits)
qed

lemma seq_io_all_complete:
  "(\<And>c. c \<in> set cs \<Longrightarrow> snd c = Inr ()) \<Longrightarrow> seq_io cs = (concat (map fst cs), Inr ())"
proof (induction cs)
  case Nil
  then show ?case by (simp add: emit_def)
next
  case (Cons c cs)
  then have c: "c = (fst c, Inr ())" and rest: "seq_io cs = (concat (map fst cs), Inr ())"
    by (simp_all add: prod_eq_iff)
  show ?case
    by (subst c) (simp add: rest)
qed

lemma call_fetch_eq:
  "snd (fetch_data cfg w e) = Inr v \<Longrightarrow> call_fetch cfg w e = (fst (fetch_data cfg w e), Inr v)"
  by (cases "fetch_data cfg w e") (simp add: call_fetch_def)

lemma fetch_data_events:
  "fst (fetch_data cfg w e) = [Get (analytics_url cfg e) 10] \<or>
   (\<exists>m. fst (fetch_data cfg w e) = [Get (analytics_url cfg e) 10, StError m])"
  by (auto simp add: fetch_data_def fetch_try_def analytics_url_def Let_def
      split: http_outcome.splits http_body.splits sum.splits)

lemma sidebar_eq:
  "st_slider 10 120 (REFRESH_INTERVAL cfg) (slider_pos w) = Inr n \<Longrightarrow>
   sidebar cfg w =
     (sidebar_page cfg w,
      if refresh_now w then Inl Rerun else Inr (st_checkbox True (auto_refresh_box w), n))"
  by (simp add: sidebar_def sidebar_page_def bind_emit leave_def split: prod.splits)

lemma sidebar_not_modelled:
  "st_slider 10 120 (REFRESH_INTERVAL cfg) (slider_pos w) = Inl e \<Longrightarrow>
   snd (sidebar cfg w) = Inl (Raised e)"
  by (simp add: sidebar_def bind_emit)

lemma main_pressed:
  "st_slider 10 120 (REFRESH_INTERVAL cfg) (slider_pos w) = Inr n \<Longrightarrow> refresh_now w \<Longrightarrow>
   main cfg w = (Markdown ''Cynchrony Analytics Dashboard'' # sidebar_page cfg w, Rerun)"
  by (simp add: main_def main_io_def bind_emit sidebar_eq)

lemma main_slider_fails:
  "st_slider 10 120 (REFRESH_INTERVAL cfg) (slider_pos w) = Inl e \<Longrightarrow>
   snd (main cfg w) = Raised e"
  by (simp add: main_def main_io_def bind_emit snd_bind sidebar_not_modelled split: prod.splits)

lemma main_absent:
  assumes "st_slider 10 120 (REFRESH_INTERVAL cfg) (slider_pos w) = Inr n"
    and "\<not> refresh_now w"
    and "snd (fetch_data cfg w ''summary'') = Inr PNone"
  shows "main cfg w =
     (page_head cfg w @
      [StWarning ''Unable to fetch analytics data. Please check the backend connection.'',
       StInfo (''Trying to connect to: '' @ BACKEND_URL cfg)], Returned)"
  using assms
  by (simp add: main_def main_io_def bind_emit sidebar_eq call_fetch_eq page_head_def leave_def)

lemma main_present:
  assumes "st_slider 10 120 (REFRESH_INTERVAL cfg) (slider_pos w) = Inr n"
    and "\<not> refresh_now w"
    and "snd (fetch_data cfg w ''summary'') = Inr s" and "s \<noteq> PNone"
  shows "main cfg w =
     (case seq_io (panels cfg w s) of
        (pev, Inl out) \<Rightarrow> (page_head cfg w @ pev, out)
      | (pev, Inr u) \<Rightarrow>
          (if st_checkbox True (auto_refresh_box w)
           then (page_head cfg w @ pev @ [Sleep n], Rerun)
           else (page_head cfg w @ pev, Returned)))"
proof -
  from assms(1) have "0 \<le> n"
    by (auto simp add: st_slider_def split: if_splits option.splits)
  with assms show ?thesis
    by (simp add: main_def main_io_def bind_emit sidebar_eq call_fetch_eq page_head_def leave_def
        auto_refresh_step_def emit_def split: prod.splits sum.splits)
qed

lemma summary_fetched_iff:
  "summary_fetched cfg w =
     ((\<exists>n. st_slider 10 120 (REFRESH_INTERVAL cfg) (slider_pos w) = Inr n) \<and> \<not> refresh_now w)"
proof (cases "st_slider 10 120 (REFRESH_INTERVAL cfg) (slider_pos w)")
  case (Inl e)
  then show ?thesis by (simp add: summary_fetched_def sidebar_not_modelled)
next
  case (Inr n)
  then show ?thesis by (simp add: summary_fetched_def sidebar_eq)
qed

lemma health_status_events:
  "health_status cfg w = [Get (BACKEND_URL cfg @ ''/health'') 5, StSuccess ''Backend Online''] \<or>
   health_status cfg w = [Get (BACKEND_URL cfg @ ''/health'') 5, StError ''Backend Error''] \<or>
   health_status cfg w = [Get (BACKEND_URL cfg @ ''/health'') 5, StError ''Backend Offline'']"
  by (simp add: health_status_def Let_def split: http_outcome.splits)

lemma page_head_requests:
  "requests_of (page_head cfg w) =
     [(BACKEND_URL cfg @ ''/health'', 5), (analytics_url cfg ''summary'', 10)]"
  using health_status_events [of cfg w] fetch_data_events [of cfg w "''summary''"]
  by (auto simp add: page_head_def sidebar_page_def requests_of_def)

lemma page_head_plain:
  "filter is_warning (page_head cfg w) = [] \<and> filter is_content (page_head cfg w) = [] \<and>
   filter is_schedule (page_head cfg w) = []"
  using health_status_events [of cfg w] fetch_data_events [of cfg w "''summary''"]
  by (auto simp add: page_head_def sidebar_page_def)

lemma list_all_emit: "list_all P evs \<Longrightarrow> list_all P (fst (emit evs))"
  by (simp add: emit_def)

lemma quiet_metric: "list_all quiet (fst (metric s l k))"
  unfolding metric_def
  by (intro list_all_bind list_all_lift list_all_emit) (simp add: quiet_def)

lemma quiet_success_rate: "list_all quiet (fst (success_rate_metric s))"
  unfolding success_rate_metric_def
  by (intro list_all_bind list_all_lift list_all_emit) (simp add: quiet_def)

lemma quiet_overview: "list_all quiet (fst (overview s))"
  unfolding overview_def
  by (rule list_all_seq_io) (auto simp add: quiet_metric quiet_success_rate emit_def quiet_def)

lemma quiet_processing: "list_all quiet (fst (processing s))"
  unfolding processing_def
  by (rule list_all_seq_io) (auto simp add: quiet_metric emit_def quiet_def)

lemma quiet_business: "list_all quiet (fst (business s))"
  unfolding business_def
  by (rule list_all_seq_io) (auto simp add: quiet_metric emit_def quiet_def)

lemma quiet_leave: "list_all P (fst (leave out))"
  by (simp add: leave_def)

lemma quiet_category: "list_all quiet (fst (category_panel s))"
  unfolding category_panel_def
  by (intro list_all_bind list_all_lift list_all_emit) (auto simp add: quiet_def leave_def emit_def intro!: list_all_bind list_all_lift)





lemma panel_unfold:
  assumes "snd (fetch_data cfg w name) = Inr v"
  shows "bind (emit heading) (\<lambda>_. bind (call_fetch cfg w name) view) =
           (heading @ fst (fetch_data cfg w name) @ fst (view v), snd (view v))"
  using assms by (simp add: bind_emit call_fetch_eq split: prod.splits)

lemma view_placeholder:
  assumes "\<not> py_truthy v"
  shows "endpoints_view v = ([StInfo ''No endpoint data available yet.''], Inr ())"
    and "hourly_view v = ([StInfo ''No hourly data available yet.''], Inr ())"
    and "errors_view v = ([StSuccess ''No errors recorded!''], Inr ())"
    and "daily_view v = ([StInfo ''No daily data available yet.''], Inr ())"
  using assms
  by (simp_all add: endpoints_view_def hourly_view_def errors_view_def daily_view_def emit_def)

lemma dataset_view_placeholder:
  "\<not> py_truthy v \<Longrightarrow> dataset_view name v = ([placeholder name], Inr ())"
  by (simp add: dataset_view_def placeholder_def view_placeholder)

lemma analytics_url_inj: "(analytics_url cfg a = analytics_url cfg b) = (a = b)"
  by (simp add: analytics_url_def)

lemma health_not_analytics: "BACKEND_URL cfg @ ''/health'' \<noteq> analytics_url cfg a"
  by (simp add: analytics_url_def)

lemma fetch_data_with_response:
  "url \<noteq> analytics_url cfg name \<Longrightarrow>
   fetch_data cfg (with_response w url out) name = fetch_data cfg w name"
  by (simp add: fetch_data_def fetch_try_def with_response_def analytics_url_def Let_def)

lemma call_fetch_with_response:
  "url \<noteq> analytics_url cfg name \<Longrightarrow>
   call_fetch cfg (with_response w url out) name = call_fetch cfg w name"
  by (simp add: call_fetch_def fetch_data_with_response)

lemma health_status_with_response:
  "health_status cfg (with_response w (analytics_url cfg name) out) = health_status cfg w"
proof -
  have "http (with_response w (analytics_url cfg name) out) (BACKEND_URL cfg @ ''/health'')
        = http w (BACKEND_URL cfg @ ''/health'')"
    using health_not_analytics [of cfg name] by (simp add: with_response_def)
  then show ?thesis
    by (simp add: health_status_def)
qed

lemma with_response_widgets:
  "slider_pos (with_response w url out) = slider_pos w"
  "refresh_now (with_response w url out) = refresh_now w"
  "auto_refresh_box (with_response w url out) = auto_refresh_box w"
  by (simp_all add: with_response_def)

lemma sidebar_with_response:
  "sidebar cfg (with_response w (analytics_url cfg name) out) = sidebar cfg w"
  by (simp add: sidebar_def health_status_with_response with_response_widgets cong: if_cong)

lemma dataset_panel_unfold:
  assumes "snd (fetch_data cfg w name) = Inr v" and "name \<in> set datasets"
  shows "dataset_panel name cfg w =
     (dataset_heading name @ fst (fetch_data cfg w name) @ fst (dataset_view name v),
      snd (dataset_view name v))"
proof -
  have "dataset_panel name cfg w =
          bind (emit (dataset_heading name)) (\<lambda>_. bind (call_fetch cfg w name) (dataset_view name))"
  proof -
    from assms(2) have "name = ''endpoints'' \<or> name = ''hourly'' \<or> name = ''errors'' \<or> name = ''daily''"
      by (simp add: datasets_def)
    then show ?thesis
      by (elim disjE)
         (simp_all add: dataset_panel_def dataset_heading_def dataset_view_def
           endpoints_panel_def hourly_panel_def errors_panel_def daily_panel_def)
  qed
  then show ?thesis
    by (simp only: panel_unfold [OF assms(1)])
qed

lemma dataset_panel_placeholder:
  assumes "snd (fetch_data cfg w name) = Inr v" and "name \<in> set datasets" and "\<not> py_truthy v"
  shows "dataset_panel name cfg w =
     (dataset_heading name @ fst (fetch_data cfg w name) @ [placeholder name], Inr ())"
  by (simp add: dataset_panel_unfold [OF assms(1) assms(2)] dataset_view_placeholder [OF assms(3)])

lemma dataset_panel_with_response:
  assumes "other \<noteq> name" and "other \<in> set datasets"
  shows "dataset_panel other cfg (with_response w (analytics_url cfg name) out) =
         dataset_panel other cfg w"
proof -
  have "analytics_url cfg name \<noteq> analytics_url cfg other"
    using assms(1) by (simp add: analytics_url_inj)
  then have "call_fetch cfg (with_response w (analytics_url cfg name) out) other =
             call_fetch cfg w other"
    by (rule call_fetch_with_response)
  moreover from assms(2) have "other = ''endpoints'' \<or> other = ''hourly'' \<or> other = ''errors'' \<or> other = ''daily''"
    by (simp add: datasets_def)
  ultimately show ?thesis
    by (elim disjE)
       (simp_all add: dataset_panel_def endpoints_panel_def hourly_panel_def
         errors_panel_def daily_panel_def)
qed

lemma only_raises_lift: "only_raises (lift x)"
  by (cases x) (simp_all add: only_raises_def)

lemma only_raises_emit: "only_raises (emit evs)"
  by (simp add: only_raises_def emit_def)

lemma only_raises_leave: "only_raises (leave (Raised e))"
  by (simp add: only_raises_def leave_def)

lemma only_raises_bind:
  assumes "only_raises m" and "\<And>a. only_raises (f a)"
  shows "only_raises (bind m f)"
proof (cases "snd m")
  case (Inl out)
  with assms(1) show ?thesis by (simp add: only_raises_def snd_bind)
next
  case (Inr a)
  with assms(2) [of a] show ?thesis by (simp add: only_raises_def snd_bind)
qed

lemma only_raises_seq_io:
  "(\<And>c. c \<in> set cs \<Longrightarrow> only_raises c) \<Longrightarrow> only_raises (seq_io cs)"
proof (induction cs)
  case Nil
  then show ?case by (simp add: only_raises_emit)
next
  case (Cons c cs)
  then show ?case by (simp add: only_raises_bind)
qed

lemma only_raises_call_fetch: "only_raises (call_fetch cfg w name)"
  using fetch_data_returns [of cfg w name]
  by (auto simp add: only_raises_def call_fetch_def)

lemma only_raises_metric: "only_raises (metric s l k)"
  unfolding metric_def
  by (intro only_raises_bind only_raises_lift only_raises_emit)

lemma only_raises_success_rate: "only_raises (success_rate_metric s)"
  unfolding success_rate_metric_def
  by (intro only_raises_bind only_raises_lift only_raises_emit)

lemma only_raises_overview: "only_raises (overview s)"
  unfolding overview_def
  by (rule only_raises_seq_io) (auto simp add: only_raises_metric only_raises_success_rate only_raises_emit)

lemma only_raises_processing: "only_raises (processing s)"
  unfolding processing_def
  by (rule only_raises_seq_io) (auto simp add: only_raises_metric only_raises_emit)

lemma only_raises_business: "only_raises (business s)"
  unfolding business_def
  by (rule only_raises_seq_io) (auto simp add: only_raises_metric only_raises_emit)

lemma only_raises_category: "only_raises (category_panel s)"
  unfolding category_panel_def
  by (auto simp add: only_raises_emit only_raises_leave intro!: only_raises_bind only_raises_lift)

lemma only_raises_views:
  "only_raises (endpoints_view v)" "only_raises (hourly_view v)"
  "only_raises (errors_view v)" "only_raises (daily_view v)"
  unfolding endpoints_view_def hourly_view_def errors_view_def daily_view_def
  by (auto simp add: only_raises_emit intro!: only_raises_bind only_raises_lift)

lemma only_raises_dataset_panels:
  "only_raises (endpoints_panel cfg w)" "only_raises (hourly_panel cfg w)"
  "only_raises (errors_panel cfg w)" "only_raises (daily_panel cfg w)"
  unfolding endpoints_panel_def hourly_panel_def errors_panel_def daily_panel_def
  by (intro only_raises_bind only_raises_emit only_raises_call_fetch only_raises_views)+

lemma only_raises_panels: "only_raises (seq_io (panels cfg w s))"
  by (rule only_raises_seq_io)
     (auto simp add: panels_def only_raises_overview only_raises_processing only_raises_business
       only_raises_category only_raises_dataset_panels only_raises_emit)




lemma filter_warning_quiet: "list_all quiet evs \<Longrightarrow> filter is_warning evs = []"
  by (induction evs) (simp_all add: quiet_def)




lemma dataset_panel_names:
  "endpoints_panel = dataset_panel ''endpoints''" "hourly_panel = dataset_panel ''hourly''"
  "errors_panel = dataset_panel ''errors''" "daily_panel = dataset_panel ''daily''"
  by (simp_all add: dataset_panel_def)


lemma seq_io_left:
  "snd (seq_io cs) = Inl out \<Longrightarrow> \<exists>c \<in> set cs. snd c = Inl out"
proof (induction cs)
  case Nil
  then show ?case by (simp add: emit_def)
next
  case (Cons c cs)
  then show ?case by (auto simp add: snd_bind split: sum.splits)
qed

lemma full_render_page:
  assumes "full_render cfg w"
  shows "\<exists>n s. st_slider 10 120 (REFRESH_INTERVAL cfg) (slider_pos w) = Inr n \<and>
           snd (fetch_data cfg w ''summary'') = Inr s \<and> s \<noteq> PNone \<and>
           (\<forall>c \<in> set (panels cfg w s). snd c = Inr ()) \<and>
           main cfg w =
             (page_head cfg w @ concat (map fst (panels cfg w s)) @
                (if st_checkbox True (auto_refresh_box w) then [Sleep n] else []),
              if st_checkbox True (auto_refresh_box w) then Rerun else Returned)"
proof -
  from assms obtain n where n: "st_slider 10 120 (REFRESH_INTERVAL cfg) (slider_pos w) = Inr n"
    and np: "\<not> refresh_now w"
    by (auto simp add: full_render_def summary_fetched_iff)
  obtain evs s where "fetch_data cfg w ''summary'' = (evs, Inr s)"
    using fetch_data_returns [of cfg w "''summary''"] by blast
  then have s: "snd (fetch_data cfg w ''summary'') = Inr s" by simp
  with assms have present: "s \<noteq> PNone" by (auto simp add: full_render_def)
  note m = main_present [OF n np s present]
  have finished: "snd (seq_io (panels cfg w s)) = Inr ()"
  proof (cases "snd (seq_io (panels cfg w s))")
    case (Inl out)
    with only_raises_panels [of cfg w s] have "is_raised out"
      by (simp add: only_raises_def)
    moreover from Inl have "snd (main cfg w) = out"
      by (cases "seq_io (panels cfg w s)") (simp add: m)
    ultimately show ?thesis using assms by (simp add: full_render_def)
  next
    case (Inr u)
    then show ?thesis by simp
  qed
  from seq_io_complete [OF finished]
  have page: "seq_io (panels cfg w s) = (concat (map fst (panels cfg w s)), Inr ())"
    and all: "\<forall>c \<in> set (panels cfg w s). snd c = Inr ()"
    using finished by (simp_all add: prod_eq_iff)
  show ?thesis
    using n s present all by (simp add: m page)
qed




lemma page_head_with_response:
  assumes "name \<in> set datasets"
  shows "page_head cfg (with_response w (analytics_url cfg name) out) = page_head cfg w"
proof -
  from assms have "name \<noteq> ''summary''"
    by (auto simp add: datasets_def)
  then have "analytics_url cfg name \<noteq> analytics_url cfg ''summary''"
    by (simp add: analytics_url_inj)
  then show ?thesis
    by (simp add: page_head_def sidebar_page_def health_status_with_response
        fetch_data_with_response)
qed

lemma replaced_panel:
  assumes name: "name \<in> set datasets"
    and others: "\<And>other. other \<in> set datasets \<Longrightarrow> other \<noteq> name \<Longrightarrow>
                   dataset_panel other cfg w = dataset_panel other cfg w'"
  shows "\<exists>before after.
           panels cfg w s = before @ dataset_panel name cfg w # after \<and>
           panels cfg w' s = before @ dataset_panel name cfg w' # after"
proof -
  from name consider "name = ''endpoints''" | "name = ''hourly''" | "name = ''errors''" | "name = ''daily''"
    by (auto simp add: datasets_def)
  then show ?thesis
  proof cases
    case 1
    have "panels cfg w s = [overview s, processing s, category_panel s] @ dataset_panel name cfg w #
             [dataset_panel ''hourly'' cfg w', business s, dataset_panel ''errors'' cfg w',
              dataset_panel ''daily'' cfg w', emit [Markdown ''---'', Footer (BACKEND_URL cfg)]]"
      using others [of "''hourly''"] others [of "''errors''"] others [of "''daily''"]
      by (simp add: 1 panels_def dataset_panel_names datasets_def)
    moreover have "panels cfg w' s = [overview s, processing s, category_panel s] @ dataset_panel name cfg w' #
             [dataset_panel ''hourly'' cfg w', business s, dataset_panel ''errors'' cfg w',
              dataset_panel ''daily'' cfg w', emit [Markdown ''---'', Footer (BACKEND_URL cfg)]]"
      by (simp add: 1 panels_def dataset_panel_names)
    ultimately show ?thesis by blast
  next
    case 2
    have "panels cfg w s = [overview s, processing s, category_panel s, dataset_panel ''endpoints'' cfg w'] @
             dataset_panel name cfg w #
             [business s, dataset_panel ''errors'' cfg w',
              dataset_panel ''daily'' cfg w', emit [Markdown ''---'', Footer (BACKEND_URL cfg)]]"
      using others [of "''endpoints''"] others [of "''errors''"] others [of "''daily''"]
      by (simp add: 2 panels_def dataset_panel_names datasets_def)
    moreover have "panels cfg w' s = [overview s, processing s, category_panel s, dataset_panel ''endpoints'' cfg w'] @
             dataset_panel name cfg w' #
             [business s, dataset_panel ''errors'' cfg w',
              dataset_panel ''daily'' cfg w', emit [Markdown ''---'', Footer (BACKEND_URL cfg)]]"
      by (simp add: 2 panels_def dataset_panel_names)
    ultimately show ?thesis by blast
  next
    case 3
    have "panels cfg w s = [overview s, processing s, category_panel s, dataset_panel ''endpoints'' cfg w',
              dataset_panel ''hourly'' cfg w', business s] @
             dataset_panel name cfg w #
             [dataset_panel ''daily'' cfg w', emit [Markdown ''---'', Footer (BACKEND_URL cfg)]]"
      using others [of "''endpoints''"] others [of "''hourly''"] others [of "''daily''"]
      by (simp add: 3 panels_def dataset_panel_names datasets_def)
    moreover have "panels cfg w' s = [overview s, processing s, category_panel s, dataset_panel ''endpoints'' cfg w',
              dataset_panel ''hourly'' cfg w', business s] @
             dataset_panel name cfg w' #
             [dataset_panel ''daily'' cfg w', emit [Markdown ''---'', Footer (BACKEND_URL cfg)]]"
      by (simp add: 3 panels_def dataset_panel_names)
    ultimately show ?thesis by blast
  next
    case 4
    have "panels cfg w s = [overview s, processing s, category_panel s, dataset_panel ''endpoints'' cfg w',
              dataset_panel ''hourly'' cfg w', business s, dataset_panel ''errors'' cfg w'] @
             dataset_panel name cfg w #
             [emit [Markdown ''---'', Footer (BACKEND_URL cfg)]]"
      using others [of "''endpoints''"] others [of "''hourly''"] others [of "''errors''"]
      by (simp add: 4 panels_def dataset_panel_names datasets_def)
    moreover have "panels cfg w' s = [overview s, processing s, category_panel s, dataset_panel ''endpoints'' cfg w',
              dataset_panel ''hourly'' cfg w', business s, dataset_panel ''errors'' cfg w'] @
             dataset_panel name cfg w' #
             [emit [Markdown ''---'', Footer (BACKEND_URL cfg)]]"
      by (simp add: 4 panels_def dataset_panel_names)
    ultimately show ?thesis by blast
  qed
qed

lemma static_category: "list_all is_static (fst (category_panel s))"
  unfolding category_panel_def
  by (intro list_all_bind list_all_lift list_all_emit)
     (auto simp add: leave_def emit_def intro!: list_all_bind list_all_lift)

lemma static_views:
  "list_all is_static (fst (endpoints_view v))" "list_all is_static (fst (hourly_view v))"
  "list_all is_static (fst (errors_view v))" "list_all is_static (fst (daily_view v))"
  unfolding endpoints_view_def hourly_view_def errors_view_def daily_view_def
  by (auto simp add: emit_def intro!: list_all_bind list_all_lift)

lemma static_dataset_view: "list_all is_static (fst (dataset_view name v))"
  by (simp add: dataset_view_def static_views)

lemma filter_static:
  assumes "list_all is_static evs"
  shows "filter is_metric evs = []" and "filter is_warning evs = []"
  using assms by (induction evs) (auto elim: is_static.elims)

lemma dataset_panel_static:
  assumes "name \<in> set datasets"
  shows "filter is_metric (fst (dataset_panel name cfg w)) = []"
    and "filter is_warning (fst (dataset_panel name cfg w)) = []"
proof -
  obtain evs v where "fetch_data cfg w name = (evs, Inr v)"
    using fetch_data_returns [of cfg w name] by blast
  then have v: "snd (fetch_data cfg w name) = Inr v" by simp
  have h: "filter is_metric (dataset_heading name) = [] \<and> filter is_warning (dataset_heading name) = []"
    by (simp add: dataset_heading_def)
  have f: "filter is_metric (fst (fetch_data cfg w name)) = [] \<and>
           filter is_warning (fst (fetch_data cfg w name)) = []"
    using fetch_data_events [of cfg w name] by auto
  from h f show "filter is_metric (fst (dataset_panel name cfg w)) = []"
    by (simp add: dataset_panel_unfold [OF v assms] filter_static [OF static_dataset_view])
  from h f show "filter is_warning (fst (dataset_panel name cfg w)) = []"
    by (simp add: dataset_panel_unfold [OF v assms] filter_static [OF static_dataset_view])
qed

lemma list_all_no_warning: "list_all (\<lambda>ev. \<not> is_warning ev) evs = (filter is_warning evs = [])"
  by (induction evs) auto

lemma panels_no_warning: "filter is_warning (fst (seq_io (panels cfg w s))) = []"
proof -
  have "list_all (\<lambda>ev. \<not> is_warning ev) (fst c)" if "c \<in> set (panels cfg w s)" for c
    using that
    by (auto simp add: panels_def list_all_no_warning filter_warning_quiet quiet_overview
        quiet_processing quiet_business quiet_category dataset_panel_names dataset_panel_static
        datasets_def emit_def)
  then have "list_all (\<lambda>ev. \<not> is_warning ev) (fst (seq_io (panels cfg w s)))"
    by (rule list_all_seq_io)
  then show ?thesis
    by (simp add: list_all_no_warning)
qed

lemma overview_defaults:
  "overview (PDict []) =
     ([Markdown ''### Overview'',
       Metric ''Total API Calls'' ''0'',
       Metric ''Success Rate'' ''100.0%'',
       Metric ''Total Errors'' ''0'',
       Metric ''AI Chat Calls'' ''0'',
       Metric ''AI Generation'' ''0'',
       Markdown ''---''], Inr ())"
  by code_simp

lemma processing_defaults:
  "processing (PDict []) =
     ([Markdown ''### Processing Operations'',
       Metric ''PDF Processing'' ''0'',
       Metric ''Image Processing'' ''0'',
       Metric ''Video Processing'' ''0'',
       Metric ''Audio Processing'' ''0'',
       Metric ''Code Executions'' ''0'',
       Metric ''File Uploads'' ''0'',
       Markdown ''---''], Inr ())"
  by code_simp

lemma business_defaults:
  "business (PDict []) =
     ([Markdown ''---'', Markdown ''### Business Metrics'',
       Metric ''Auth Events'' ''0'',
       Metric ''Payment Events'' ''0'',
       Metric ''Assessments'' ''0'',
       Metric ''Interviews'' ''0'',
       Metric ''Resume Ops'' ''0'',
       Markdown ''---''], Inr ())"
  by code_simp

lemma category_defaults:
  "category_panel (PDict []) =
     ([Markdown ''### Category Breakdown'', StInfo ''No category data available yet.''], Inr ())"
  by code_simp

lemma fetch_data_no_data_key:
  assumes "http w (analytics_url cfg endpoint) 10 = Response 200 (Json (PDict kvs))"
    and "map_of kvs ''data'' = None"
  shows "fetch_data cfg w endpoint = ([Get (analytics_url cfg endpoint) 10], Inr (PDict []))"
  using assms by (simp add: fetch_data_def fetch_try_def analytics_url_def)

lemma page_head_no_metric: "filter is_metric (page_head cfg w) = []"
  using health_status_events [of cfg w] fetch_data_events [of cfg w "''summary''"]
  by (auto simp add: page_head_def sidebar_page_def)

lemma panels_default_metrics:
  "filter is_metric (concat (map fst (panels cfg w (PDict [])))) =
     default_metrics_top @ default_metrics_business"
  by (simp add: panels_def overview_defaults processing_defaults business_defaults
      category_defaults dataset_panel_names dataset_panel_static datasets_def emit_def
      default_metrics_top_def default_metrics_business_def)

lemma panels_default_top:
  "\<exists>rest. seq_io (panels cfg w (PDict [])) =
     (fst (overview (PDict [])) @ fst (processing (PDict [])) @ fst (category_panel (PDict [])) @
        fst rest, snd rest)"
  by (rule exI [of _ "seq_io [endpoints_panel cfg w, hourly_panel cfg w, business (PDict []),
        errors_panel cfg w, daily_panel cfg w, emit [Markdown ''---'', Footer (BACKEND_URL cfg)]]"])
     (simp add: panels_def overview_defaults processing_defaults category_defaults
       split: prod.splits)

lemma zero_text: "format_number (PInt 0) = Inr ''0''"
  by code_simp

lemma hundred_text: "py_fmt_1f (PInt 100) = Inr ''100.0''"
  by code_simp

lemma metric_missing:
  "map_of kvs key = None \<Longrightarrow> metric (PDict kvs) label key = ([Metric label ''0''], Inr ())"
  by (simp add: metric_def zero_text emit_def)

lemma success_rate_missing:
  "map_of kvs ''success_rate'' = None \<Longrightarrow>
   success_rate_metric (PDict kvs) = ([Metric ''Success Rate'' ''100.0%''], Inr ())"
  by (simp add: success_rate_metric_def hundred_text emit_def del: py_fmt_1f.simps)

lemma seq_io_shows:
  assumes "snd (seq_io cs) = Inr ()" and "c \<in> set cs"
  shows "set (fst c) \<subseteq> set (fst (seq_io cs))"
  using seq_io_complete [OF assms(1)] assms(2) by auto

lemma counters_all:
  assumes ov: "\<And>label key.
     metric s label key \<in> set
       [emit [Markdown ''### Overview''],
        metric s ''Total API Calls'' ''total_api_calls'',
        success_rate_metric s,
        metric s ''Total Errors'' ''total_errors'',
        metric s ''AI Chat Calls'' ''ai_chat_calls'',
        metric s ''AI Generation'' ''ai_generation_calls'',
        emit [Markdown ''---'']] \<Longrightarrow> P label key"
    and pr: "\<And>label key.
     metric s label key \<in> set
       [emit [Markdown ''### Processing Operations''],
        metric s ''PDF Processing'' ''pdf_processing'',
        metric s ''Image Processing'' ''image_processing'',
        metric s ''Video Processing'' ''video_processing'',
        metric s ''Audio Processing'' ''audio_processing'',
        metric s ''Code Executions'' ''code_executions'',
        metric s ''File Uploads'' ''file_uploads'',
        emit [Markdown ''---'']] \<Longrightarrow> P label key"
    and bu: "\<And>label key.
     metric s label key \<in> set
       [emit [Markdown ''---'', Markdown ''### Business Metrics''],
        metric s ''Auth Events'' ''authentication_events'',
        metric s ''Payment Events'' ''payment_events'',
        metric s ''Assessments'' ''assessment_events'',
        metric s ''Interviews'' ''interview_events'',
        metric s ''Resume Ops'' ''resume_operations'',
        emit [Markdown ''---'']] \<Longrightarrow> P label key"
  shows "list_all (\<lambda>(label, key). P label key) counters"
proof -
  have "P ''Total API Calls'' ''total_api_calls''" by (rule ov) simp
  moreover have "P ''Total Errors'' ''total_errors''" by (rule ov) simp
  moreover have "P ''AI Chat Calls'' ''ai_chat_calls''" by (rule ov) simp
  moreover have "P ''AI Generation'' ''ai_generation_calls''" by (rule ov) simp
  moreover have "P ''PDF Processing'' ''pdf_processing''" by (rule pr) simp
  moreover have "P ''Image Processing'' ''image_processing''" by (rule pr) simp
  moreover have "P ''Video Processing'' ''video_processing''" by (rule pr) simp
  moreover have "P ''Audio Processing'' ''audio_processing''" by (rule pr) simp
  moreover have "P ''Code Executions'' ''code_executions''" by (rule pr) simp
  moreover have "P ''File Uploads'' ''file_uploads''" by (rule pr) simp
  moreover have "P ''Auth Events'' ''authentication_events''" by (rule bu) simp
  moreover have "P ''Payment Events'' ''payment_events''" by (rule bu) simp
  moreover have "P ''Assessments'' ''assessment_events''" by (rule bu) simp
  moreover have "P ''Interviews'' ''interview_events''" by (rule bu) simp
  moreover have "P ''Resume Ops'' ''resume_operations''" by (rule bu) simp
  ultimately show ?thesis
    unfolding counters_def list.pred_inject prod.case by simp
qed

lemma panel_in_page:
  assumes full: "full_render cfg w" and s: "snd (fetch_data cfg w ''summary'') = Inr s"
    and p: "p \<in> set (panels cfg w s)"
  shows "snd p = Inr () \<and> set (fst p) \<subseteq> set (fst (main cfg w))"
proof -
  from full_render_page [OF full] s obtain n where
    all: "\<forall>p \<in> set (panels cfg w s). snd p = Inr ()" and
    m: "main cfg w =
         (page_head cfg w @ concat (map fst (panels cfg w s)) @
            (if st_checkbox True (auto_refresh_box w) then [Sleep n] else []),
          if st_checkbox True (auto_refresh_box w) then Rerun else Returned)"
    by auto
  from p have "set (fst p) \<subseteq> set (concat (map fst (panels cfg w s)))"
    by auto
  then have "set (fst p) \<subseteq> set (fst (main cfg w))"
    unfolding m by auto
  with all p show ?thesis by blast
qed

lemma summary_panels_in_page:
  assumes full: "full_render cfg w" and s: "snd (fetch_data cfg w ''summary'') = Inr s"
  shows "snd (overview s) = Inr () \<and> set (fst (overview s)) \<subseteq> set (fst (main cfg w))"
    and "snd (processing s) = Inr () \<and> set (fst (processing s)) \<subseteq> set (fst (main cfg w))"
    and "snd (business s) = Inr () \<and> set (fst (business s)) \<subseteq> set (fst (main cfg w))"
  by (rule panel_in_page [OF full s], simp add: panels_def)+








text \<open>
  The scenario with a summary of 1500 calls, a success rate of 97.2 and ten errors, and
  four empty datasets: the whole page of one run.
\<close>

lemma quiet_backend_page:
  "main example_cfg backend_quiet =
    ([Markdown ''Cynchrony Analytics Dashboard'',
     ui_event.Image ''https://cynchrony.in/logo.png'', Markdown ''---'',
     Markdown ''### Settings'', Checkbox ''Auto-refresh'' True,
     Slider ''Refresh interval (seconds)'' 10 120 30, Markdown ''---'',
     Markdown ''### Quick Links'',
     Markdown ''- [API Docs](http://backend/docs)'',
     Markdown ''- [Health Check](http://backend/health)'', Markdown ''---'',
     Markdown ''### Backend Status'', Get ''http://backend/health'' 5,
     StSuccess ''Backend Online'', Button ''Refresh Now'',
     Get ''http://backend/analytics/summary'' 10, Markdown ''### Overview'',
     Metric ''Total API Calls'' ''1.5K'', Metric ''Success Rate'' ''97.2%'',
     Metric ''Total Errors'' ''10'', Metric ''AI Chat Calls'' ''0'',
     Metric ''AI Generation'' ''0'', Markdown ''---'',
     Markdown ''### Processing Operations'', Metric ''PDF Processing'' ''0'',
     Metric ''Image Processing'' ''0'', Metric ''Video Processing'' ''0'',
     Metric ''Audio Processing'' ''0'', Metric ''Code Executions'' ''0'',
     Metric ''File Uploads'' ''0'', Markdown ''---'',
     Markdown ''### Category Breakdown'',
     StInfo ''No category data available yet.'',
     Markdown ''### Top Endpoints'',
     Get ''http://backend/analytics/endpoints'' 10,
     StInfo ''No endpoint data available yet.'', Markdown ''---'',
     Markdown ''### Hourly Activity (Last 24 Hours)'',
     Get ''http://backend/analytics/hourly'' 10,
     StInfo ''No hourly data available yet.'', Markdown ''---'',
     Markdown ''### Business Metrics'', Metric ''Auth Events'' ''0'',
     Metric ''Payment Events'' ''0'', Metric ''Assessments'' ''0'',
     Metric ''Interviews'' ''0'', Metric ''Resume Ops'' ''0'',
     Markdown ''---'', Markdown ''### Recent Errors'',
     Get ''http://backend/analytics/errors'' 10,
     StSuccess ''No errors recorded!'', Markdown ''---'',
     Markdown ''### Daily Statistics (Last 30 Days)'',
     Get ''http://backend/analytics/daily'' 10,
     StInfo ''No daily data available yet.'', Markdown ''---'',
     Footer ''http://backend'', Sleep 15],
     Rerun)"
  by code_simp

section \<open>The render cycle: the properties\<close>

text \<open>
  C2. In every render cycle in which the summary fetch returns absent, the cycle shows
  exactly one warning and no metric, chart or table, and ends by returning: nothing sleeps,
  nothing asks for a rerun, and no further request is sent.
\<close>

theorem absent_summary_cycle:
  "summary_fetched cfg w \<and> snd (fetch_data cfg w ''summary'') = Inr PNone \<longrightarrow>
     main cfg w =
       (page_head cfg w @
        [StWarning ''Unable to fetch analytics data. Please check the backend connection.'',
         StInfo (''Trying to connect to: '' @ BACKEND_URL cfg)], Returned) \<and>
     length (filter is_warning (fst (main cfg w))) = 1 \<and>
     filter is_content (fst (main cfg w)) = [] \<and>
     filter is_schedule (fst (main cfg w)) = [] \<and>
     requests_of (fst (main cfg w)) =
       [(BACKEND_URL cfg @ ''/health'', 5), (analytics_url cfg ''summary'', 10)] \<and>
     snd (main cfg w) = Returned"
proof (intro impI)
  assume a: "summary_fetched cfg w \<and> snd (fetch_data cfg w ''summary'') = Inr PNone"
  then obtain n where n: "st_slider 10 120 (REFRESH_INTERVAL cfg) (slider_pos w) = Inr n"
    and np: "\<not> refresh_now w"
    by (auto simp add: summary_fetched_iff)
  from a have absent: "snd (fetch_data cfg w ''summary'') = Inr PNone" by simp
  note m = main_absent [OF n np absent]
  show "main cfg w =
       (page_head cfg w @
        [StWarning ''Unable to fetch analytics data. Please check the backend connection.'',
         StInfo (''Trying to connect to: '' @ BACKEND_URL cfg)], Returned) \<and>
     length (filter is_warning (fst (main cfg w))) = 1 \<and>
     filter is_content (fst (main cfg w)) = [] \<and>
     filter is_schedule (fst (main cfg w)) = [] \<and>
     requests_of (fst (main cfg w)) =
       [(BACKEND_URL cfg @ ''/health'', 5), (analytics_url cfg ''summary'', 10)] \<and>
     snd (main cfg w) = Returned"
    using page_head_plain [of cfg w] page_head_requests [of cfg w]
    by (simp add: m requests_of_def)
qed

theorem absent_summary_cycle_witness:
  "summary_fetched example_cfg backend_down \<and>
   snd (fetch_data example_cfg backend_down ''summary'') = Inr PNone \<and>
   length (filter is_warning (fst (main example_cfg backend_down))) = 1 \<and>
   filter is_content (fst (main example_cfg backend_down)) = [] \<and>
   filter is_schedule (fst (main example_cfg backend_down)) = [] \<and>
   snd (main example_cfg backend_down) = Returned"
proof -
  have reached: "summary_fetched example_cfg backend_down"
    by code_simp
  have absent: "snd (fetch_data example_cfg backend_down ''summary'') = Inr PNone"
    by code_simp
  from reached absent absent_summary_cycle [where cfg = example_cfg and w = backend_down]
  show ?thesis by blast
qed





text \<open>
  C3. In a render cycle with a present summary, a dataset among endpoints, hourly, errors
  and daily that is absent or an empty list makes its panel show its placeholder (after
  whatever diagnostic the fetch gave) and go on to the next panel. Whatever the backend
  could have answered for that dataset instead, every other dataset panel is the same; and
  if the cycle with that other answer is a full render, so is the cycle with the absent
  dataset, with the same outcome and the same page before and after the panel.
\<close>

theorem absent_dataset_isolated:
  "name \<in> set datasets \<and> snd (fetch_data cfg w name) = Inr v \<and> (v = PNone \<or> v = PList []) \<longrightarrow>
     dataset_panel name cfg w =
       (dataset_heading name @ fst (fetch_data cfg w name) @ [placeholder name], Inr ()) \<and>
     (\<forall>out.
        (\<forall>other \<in> set datasets. other \<noteq> name \<longrightarrow>
           dataset_panel other cfg w =
           dataset_panel other cfg (with_response w (analytics_url cfg name) out)) \<and>
        (full_render cfg (with_response w (analytics_url cfg name) out) \<longrightarrow>
           full_render cfg w \<and>
           snd (main cfg w) = snd (main cfg (with_response w (analytics_url cfg name) out)) \<and>
           (\<exists>before after.
              fst (main cfg (with_response w (analytics_url cfg name) out)) =
                before @
                fst (dataset_panel name cfg (with_response w (analytics_url cfg name) out)) @
                after \<and>
              fst (main cfg w) =
                before @ dataset_heading name @ fst (fetch_data cfg w name) @ [placeholder name] @
                after)))"
proof (intro impI)
  assume a: "name \<in> set datasets \<and> snd (fetch_data cfg w name) = Inr v \<and> (v = PNone \<or> v = PList [])"
  then have name: "name \<in> set datasets" and v: "snd (fetch_data cfg w name) = Inr v"
    and falsy: "\<not> py_truthy v"
    by auto
  note here = dataset_panel_placeholder [OF v name falsy]
  have rest: "(\<forall>other \<in> set datasets. other \<noteq> name \<longrightarrow>
           dataset_panel other cfg w =
           dataset_panel other cfg (with_response w (analytics_url cfg name) out)) \<and>
        (full_render cfg (with_response w (analytics_url cfg name) out) \<longrightarrow>
           full_render cfg w \<and>
           snd (main cfg w) = snd (main cfg (with_response w (analytics_url cfg name) out)) \<and>
           (\<exists>before after.
              fst (main cfg (with_response w (analytics_url cfg name) out)) =
                before @
                fst (dataset_panel name cfg (with_response w (analytics_url cfg name) out)) @
                after \<and>
              fst (main cfg w) =
                before @ dataset_heading name @ fst (fetch_data cfg w name) @ [placeholder name] @
                after))" for out
  proof (intro conjI impI)
    show "\<forall>other \<in> set datasets. other \<noteq> name \<longrightarrow>
           dataset_panel other cfg w =
           dataset_panel other cfg (with_response w (analytics_url cfg name) out)"
      by (simp add: dataset_panel_with_response)
  next
    define w' where "w' = with_response w (analytics_url cfg name) out"
    assume "full_render cfg (with_response w (analytics_url cfg name) out)"
    then have full': "full_render cfg w'"
      by (simp add: w'_def)
    from full_render_page [OF full'] obtain n s where
      n': "st_slider 10 120 (REFRESH_INTERVAL cfg) (slider_pos w') = Inr n" and
      s': "snd (fetch_data cfg w' ''summary'') = Inr s" and present: "s \<noteq> PNone" and
      all': "\<forall>c \<in> set (panels cfg w' s). snd c = Inr ()" and
      m': "main cfg w' =
         (page_head cfg w' @ concat (map fst (panels cfg w' s)) @
            (if st_checkbox True (auto_refresh_box w') then [Sleep n] else []),
          if st_checkbox True (auto_refresh_box w') then Rerun else Returned)"
      by blast
    from full' have np': "\<not> refresh_now w'"
      by (simp add: full_render_def summary_fetched_iff)
    from name have "name \<noteq> ''summary''"
      by (auto simp add: datasets_def)
    then have "analytics_url cfg name \<noteq> analytics_url cfg ''summary''"
      by (simp add: analytics_url_inj)
    then have s: "snd (fetch_data cfg w ''summary'') = Inr s"
      using s' by (simp add: w'_def fetch_data_with_response)
    from n' have n: "st_slider 10 120 (REFRESH_INTERVAL cfg) (slider_pos w) = Inr n"
      by (simp add: w'_def with_response_widgets)
    from np' have np: "\<not> refresh_now w"
      by (simp add: w'_def with_response_widgets)
    have box: "auto_refresh_box w' = auto_refresh_box w"
      by (simp add: w'_def with_response_widgets)
    have head: "page_head cfg w' = page_head cfg w"
      by (simp add: w'_def page_head_with_response [OF name])
    from replaced_panel [OF name, of cfg w w' s] obtain before after where
      p: "panels cfg w s = before @ dataset_panel name cfg w # after" and
      p': "panels cfg w' s = before @ dataset_panel name cfg w' # after"
      by (auto simp add: w'_def dataset_panel_with_response)
    from all' have "\<forall>c \<in> set (panels cfg w s). snd c = Inr ()"
      by (simp add: p p' here)
    then have page: "seq_io (panels cfg w s) = (concat (map fst (panels cfg w s)), Inr ())"
      by (simp add: seq_io_all_complete)
    have m: "main cfg w =
         (page_head cfg w @ concat (map fst (panels cfg w s)) @
            (if st_checkbox True (auto_refresh_box w) then [Sleep n] else []),
          if st_checkbox True (auto_refresh_box w) then Rerun else Returned)"
      by (simp add: main_present [OF n np s present] page)
    have f: "full_render cfg w"
      using n np s present by (simp add: full_render_def summary_fetched_iff m)
    have o: "snd (main cfg w) = snd (main cfg w')"
      by (simp add: m m' box)
    have "fst (main cfg w') =
        (page_head cfg w @ concat (map fst before)) @ fst (dataset_panel name cfg w') @
        (concat (map fst after) @ (if st_checkbox True (auto_refresh_box w) then [Sleep n] else []))"
      by (simp add: m' p' head box)
    moreover have "fst (main cfg w) =
        (page_head cfg w @ concat (map fst before)) @ dataset_heading name @
        fst (fetch_data cfg w name) @ [placeholder name] @
        (concat (map fst after) @ (if st_checkbox True (auto_refresh_box w) then [Sleep n] else []))"
      by (simp add: m p here)
    ultimately have segs: "\<exists>before after.
              fst (main cfg w') = before @ fst (dataset_panel name cfg w') @ after \<and>
              fst (main cfg w) =
                before @ dataset_heading name @ fst (fetch_data cfg w name) @ [placeholder name] @
                after"
      by blast
    from f show "full_render cfg w" .
    from o show "snd (main cfg w) = snd (main cfg (with_response w (analytics_url cfg name) out))"
      by (simp add: w'_def)
    from segs show "\<exists>before after.
              fst (main cfg (with_response w (analytics_url cfg name) out)) =
                before @
                fst (dataset_panel name cfg (with_response w (analytics_url cfg name) out)) @
                after \<and>
              fst (main cfg w) =
                before @ dataset_heading name @ fst (fetch_data cfg w name) @ [placeholder name] @
                after"
      by (simp add: w'_def)
  qed
  from here rest show "dataset_panel name cfg w =
       (dataset_heading name @ fst (fetch_data cfg w name) @ [placeholder name], Inr ()) \<and>
     (\<forall>out.
        (\<forall>other \<in> set datasets. other \<noteq> name \<longrightarrow>
           dataset_panel other cfg w =
           dataset_panel other cfg (with_response w (analytics_url cfg name) out)) \<and>
        (full_render cfg (with_response w (analytics_url cfg name) out) \<longrightarrow>
           full_render cfg w \<and>
           snd (main cfg w) = snd (main cfg (with_response w (analytics_url cfg name) out)) \<and>
           (\<exists>before after.
              fst (main cfg (with_response w (analytics_url cfg name) out)) =
                before @
                fst (dataset_panel name cfg (with_response w (analytics_url cfg name) out)) @
                after \<and>
              fst (main cfg w) =
                before @ dataset_heading name @ fst (fetch_data cfg w name) @ [placeholder name] @
                after)))"
    by blast
qed

theorem absent_dataset_isolated_witness:
  "''hourly'' \<in> set datasets \<and>
   snd (fetch_data example_cfg backend_quiet ''hourly'') = Inr (PList []) \<and>
   full_render example_cfg
     (with_response backend_quiet (analytics_url example_cfg ''hourly'') hourly_answer) \<and>
   dataset_panel ''hourly'' example_cfg backend_quiet =
     (dataset_heading ''hourly'' @ fst (fetch_data example_cfg backend_quiet ''hourly'') @
        [placeholder ''hourly''], Inr ()) \<and>
   full_render example_cfg backend_quiet \<and>
   snd (main example_cfg backend_quiet) =
     snd (main example_cfg
       (with_response backend_quiet (analytics_url example_cfg ''hourly'') hourly_answer))"
proof -
  have name: "''hourly'' \<in> set datasets"
    by (simp add: datasets_def)
  have empty: "snd (fetch_data example_cfg backend_quiet ''hourly'') = Inr (PList [])"
    by code_simp
  have full: "full_render example_cfg
     (with_response backend_quiet (analytics_url example_cfg ''hourly'') hourly_answer)"
    by code_simp
  from name empty full
    absent_dataset_isolated [where name = "''hourly''" and cfg = example_cfg
      and w = backend_quiet and v = "PList []"]
  show ?thesis by blast
qed




text \<open>
  C9. For every answer of status 200 whose JSON object has no \<^verbatim>\<open>data\<close> key,
  \<open>fetch_data\<close> returns the empty dict, not \<open>None\<close>. Such an answer for the summary
  gives no warning: the overview and processing metrics and the category placeholder are
  shown at their defaults, and when the cycle runs to its end the page has all sixteen
  metrics at their defaults.
\<close>

theorem empty_summary_renders:
  "(http w (analytics_url cfg endpoint) 10 = Response 200 (Json (PDict kvs)) \<and>
      map_of kvs ''data'' = None \<longrightarrow>
      fetch_data cfg w endpoint = ([Get (analytics_url cfg endpoint) 10], Inr (PDict []))) \<and>
   (summary_fetched cfg w \<and>
      http w (analytics_url cfg ''summary'') 10 = Response 200 (Json (PDict kvs')) \<and>
      map_of kvs' ''data'' = None \<longrightarrow>
      filter is_warning (fst (main cfg w)) = [] \<and>
      (\<exists>more. filter is_metric (fst (main cfg w)) = default_metrics_top @ more) \<and>
      StInfo ''No category data available yet.'' \<in> set (fst (main cfg w)) \<and>
      (\<not> is_raised (snd (main cfg w)) \<longrightarrow>
         filter is_metric (fst (main cfg w)) = default_metrics_top @ default_metrics_business))"
proof (intro conjI impI)
  assume "http w (analytics_url cfg endpoint) 10 = Response 200 (Json (PDict kvs)) \<and>
      map_of kvs ''data'' = None"
  then show "fetch_data cfg w endpoint = ([Get (analytics_url cfg endpoint) 10], Inr (PDict []))"
    by (simp add: fetch_data_no_data_key)
next
  assume a: "summary_fetched cfg w \<and>
      http w (analytics_url cfg ''summary'') 10 = Response 200 (Json (PDict kvs')) \<and>
      map_of kvs' ''data'' = None"
  then obtain n where n: "st_slider 10 120 (REFRESH_INTERVAL cfg) (slider_pos w) = Inr n"
    and np: "\<not> refresh_now w"
    by (auto simp add: summary_fetched_iff)
  from a have s: "snd (fetch_data cfg w ''summary'') = Inr (PDict [])"
    by (simp add: fetch_data_no_data_key)
  note m = main_present [OF n np s]
  obtain rest where rest: "seq_io (panels cfg w (PDict [])) =
     (fst (overview (PDict [])) @ fst (processing (PDict [])) @ fst (category_panel (PDict [])) @
        fst rest, snd rest)"
    using panels_default_top by blast
  have shape: "\<exists>tail. fst (main cfg w) = page_head cfg w @ fst (seq_io (panels cfg w (PDict []))) @ tail \<and>
      filter is_warning tail = [] \<and> filter is_metric tail = []"
    by (cases "seq_io (panels cfg w (PDict []))"; cases "snd (seq_io (panels cfg w (PDict [])))")
       (auto simp add: m)
  then obtain tail where tail: "fst (main cfg w) = page_head cfg w @ fst (seq_io (panels cfg w (PDict []))) @ tail"
    and quiet_tail: "filter is_warning tail = []" "filter is_metric tail = []"
    by blast
  show "filter is_warning (fst (main cfg w)) = []"
    using page_head_plain [of cfg w] by (simp add: tail quiet_tail panels_no_warning)
  show "\<exists>more. filter is_metric (fst (main cfg w)) = default_metrics_top @ more"
    by (simp add: tail rest quiet_tail page_head_no_metric overview_defaults processing_defaults
        category_defaults default_metrics_top_def)
  show "StInfo ''No category data available yet.'' \<in> set (fst (main cfg w))"
    by (simp add: tail rest category_defaults)
  assume ok: "\<not> is_raised (snd (main cfg w))"
  with a s have "full_render cfg w"
    by (simp add: full_render_def)
  from full_render_page [OF this] s
  have "fst (main cfg w) = page_head cfg w @ concat (map fst (panels cfg w (PDict []))) @
          (if st_checkbox True (auto_refresh_box w) then [Sleep n] else [])"
    using n by auto
  then show "filter is_metric (fst (main cfg w)) = default_metrics_top @ default_metrics_business"
    by (simp add: page_head_no_metric panels_default_metrics)
qed

theorem empty_summary_renders_witness:
  "summary_fetched example_cfg backend_bare \<and>
   http backend_bare (analytics_url example_cfg ''summary'') 10 = Response 200 (Json (PDict [])) \<and>
   fetch_data example_cfg backend_bare ''summary'' =
     ([Get (analytics_url example_cfg ''summary'') 10], Inr (PDict [])) \<and>
   \<not> is_raised (snd (main example_cfg backend_bare)) \<and>
   filter is_warning (fst (main example_cfg backend_bare)) = [] \<and>
   filter is_metric (fst (main example_cfg backend_bare)) =
     default_metrics_top @ default_metrics_business"
proof -
  have reached: "summary_fetched example_cfg backend_bare"
    by code_simp
  have answer: "http backend_bare (analytics_url example_cfg ''summary'') 10 =
      Response 200 (Json (PDict []))"
    by code_simp
  have ok: "\<not> is_raised (snd (main example_cfg backend_bare))"
    by code_simp
  from reached answer ok
    empty_summary_renders [where cfg = example_cfg and w = backend_bare and endpoint = "''summary''"
      and kvs = "[]" and kvs' = "[]"]
  show ?thesis by simp
qed

text \<open>
  C10. When \<open>success_rate\<close> is missing from the summary, the Success Rate metric shows
  the default 100 as "100.0%", while every other counter missing from the summary shows
  "0"; in a full render these are the metrics on the page.
\<close>

theorem missing_summary_fields:
  "(map_of kvs ''success_rate'' = None \<longrightarrow>
      success_rate_metric (PDict kvs) = ([Metric ''Success Rate'' ''100.0%''], Inr ())) \<and>
   (map_of kvs key = None \<longrightarrow> metric (PDict kvs) label key = ([Metric label ''0''], Inr ())) \<and>
   (full_render cfg w \<and> snd (fetch_data cfg w ''summary'') = Inr (PDict kvs) \<longrightarrow>
      (map_of kvs ''success_rate'' = None \<longrightarrow>
         Metric ''Success Rate'' ''100.0%'' \<in> set (fst (main cfg w))) \<and>
      list_all (\<lambda>(label, key). map_of kvs key = None \<longrightarrow>
                  Metric label ''0'' \<in> set (fst (main cfg w))) counters)"
proof (intro conjI impI)
  assume "map_of kvs ''success_rate'' = None"
  then show "success_rate_metric (PDict kvs) = ([Metric ''Success Rate'' ''100.0%''], Inr ())"
    by (rule success_rate_missing)
next
  assume "map_of kvs key = None"
  then show "metric (PDict kvs) label key = ([Metric label ''0''], Inr ())"
    by (rule metric_missing)
next
  assume a: "full_render cfg w \<and> snd (fetch_data cfg w ''summary'') = Inr (PDict kvs)"
  then have full: "full_render cfg w" and s: "snd (fetch_data cfg w ''summary'') = Inr (PDict kvs)"
    by simp_all
  note shown = summary_panels_in_page [OF full s]
  {
    assume missing: "map_of kvs ''success_rate'' = None"
    have "success_rate_metric (PDict kvs) \<in> set
       [emit [Markdown ''### Overview''],
        metric (PDict kvs) ''Total API Calls'' ''total_api_calls'',
        success_rate_metric (PDict kvs),
        metric (PDict kvs) ''Total Errors'' ''total_errors'',
        metric (PDict kvs) ''AI Chat Calls'' ''ai_chat_calls'',
        metric (PDict kvs) ''AI Generation'' ''ai_generation_calls'',
        emit [Markdown ''---'']]"
      by simp
    then have "set (fst (success_rate_metric (PDict kvs))) \<subseteq> set (fst (overview (PDict kvs)))"
      using shown(1) unfolding overview_def by (intro seq_io_shows) simp_all
    with shown(1) show "Metric ''Success Rate'' ''100.0%'' \<in> set (fst (main cfg w))"
      by (auto simp add: success_rate_missing [OF missing])
  }
  show "list_all (\<lambda>(label, key). map_of kvs key = None \<longrightarrow>
                  Metric label ''0'' \<in> set (fst (main cfg w))) counters"
  proof (rule counters_all [where s = "PDict kvs"])
    fix label key
    assume "metric (PDict kvs) label key \<in> set
       [emit [Markdown ''### Overview''],
        metric (PDict kvs) ''Total API Calls'' ''total_api_calls'',
        success_rate_metric (PDict kvs),
        metric (PDict kvs) ''Total Errors'' ''total_errors'',
        metric (PDict kvs) ''AI Chat Calls'' ''ai_chat_calls'',
        metric (PDict kvs) ''AI Generation'' ''ai_generation_calls'',
        emit [Markdown ''---'']]"
    then have "set (fst (metric (PDict kvs) label key)) \<subseteq> set (fst (overview (PDict kvs)))"
      using shown(1) unfolding overview_def by (intro seq_io_shows) simp_all
    with shown(1) show "map_of kvs key = None \<longrightarrow> Metric label ''0'' \<in> set (fst (main cfg w))"
      by (auto simp add: metric_missing)
  next
    fix label key
    assume "metric (PDict kvs) label key \<in> set
       [emit [Markdown ''### Processing Operations''],
        metric (PDict kvs) ''PDF Processing'' ''pdf_processing'',
        metric (PDict kvs) ''Image Processing'' ''image_processing'',
        metric (PDict kvs) ''Video Processing'' ''video_processing'',
        metric (PDict kvs) ''Audio Processing'' ''audio_processing'',
        metric (PDict kvs) ''Code Executions'' ''code_executions'',
        metric (PDict kvs) ''File Uploads'' ''file_uploads'',
        emit [Markdown ''---'']]"
    then have "set (fst (metric (PDict kvs) label key)) \<subseteq> set (fst (processing (PDict kvs)))"
      using shown(2) unfolding processing_def by (intro seq_io_shows) simp_all
    with shown(2) show "map_of kvs key = None \<longrightarrow> Metric label ''0'' \<in> set (fst (main cfg w))"
      by (auto simp add: metric_missing)
  next
    fix label key
    assume "metric (PDict kvs) label key \<in> set
       [emit [Markdown ''---'', Markdown ''### Business Metrics''],
        metric (PDict kvs) ''Auth Events'' ''authentication_events'',
        metric (PDict kvs) ''Payment Events'' ''payment_events'',
        metric (PDict kvs) ''Assessments'' ''assessment_events'',
        metric (PDict kvs) ''Interviews'' ''interview_events'',
        metric (PDict kvs) ''Resume Ops'' ''resume_operations'',
        emit [Markdown ''---'']]"
    then have "set (fst (metric (PDict kvs) label key)) \<subseteq> set (fst (business (PDict kvs)))"
      using shown(3) unfolding business_def by (intro seq_io_shows) simp_all
    with shown(3) show "map_of kvs key = None \<longrightarrow> Metric label ''0'' \<in> set (fst (main cfg w))"
      by (auto simp add: metric_missing)
  qed
qed

theorem missing_summary_fields_witness:
  "full_render example_cfg backend_bare \<and>
   snd (fetch_data example_cfg backend_bare ''summary'') = Inr (PDict []) \<and>
   success_rate_metric (PDict []) = ([Metric ''Success Rate'' ''100.0%''], Inr ()) \<and>
   metric (PDict []) ''Total Errors'' ''total_errors'' = ([Metric ''Total Errors'' ''0''], Inr ()) \<and>
   Metric ''Success Rate'' ''100.0%'' \<in> set (fst (main example_cfg backend_bare)) \<and>
   Metric ''Total Errors'' ''0'' \<in> set (fst (main example_cfg backend_bare))"
proof -
  have full: "full_render example_cfg backend_bare"
    by code_simp
  have summary: "snd (fetch_data example_cfg backend_bare ''summary'') = Inr (PDict [])"
    by code_simp
  from full summary
    missing_summary_fields [where cfg = example_cfg and w = backend_bare and kvs = "[]"
      and key = "''total_errors''" and label = "''Total Errors''"]
  show ?thesis by (simp add: counters_def)
qed

end
